theory Spec2Isabelle
  imports Complex_Main
begin

section \<open>Python values and exceptions\<close>

text \<open>
  The exceptions the modelled code can raise. A computation that may raise has the type
  \<open>error + 'a\<close>, \<open>Inl\<close> carrying the exception.
\<close>

datatype error = IndexError | ValueError | KeyError | TypeError | FloatingPointError

text \<open>
  A scalar float as the primitives of \<open>slgep_lib/function_set.py\<close> receive it: the NaN
  sentinel \<open>np.nan\<close>, a finite number, or an infinity. Rounding is not modelled; the
  finite values are reals.
\<close>

datatype fval = NaN | Num real | PInf | NInf

text \<open>\<open>b == 0\<close> on a scalar float: NaN and the infinities compare unequal to zero.\<close>

fun py_eq0 :: "fval \<Rightarrow> bool" where
  "py_eq0 (Num r) = (r = 0)"
| "py_eq0 _ = False"

text \<open>\<open>a >= 88\<close> on a scalar float: every comparison with NaN is false.\<close>

fun py_ge88 :: "fval \<Rightarrow> bool" where
  "py_ge88 (Num r) = (88 \<le> r)"
| "py_ge88 PInf = True"
| "py_ge88 _ = False"

text \<open>\<open>np.abs\<close>: exact on every float, it raises no floating-point error.\<close>

fun np_abs :: "fval \<Rightarrow> fval" where
  "np_abs NaN = NaN"
| "np_abs (Num r) = Num \<bar>r\<bar>"
| "np_abs PInf = PInf"
| "np_abs NInf = PInf"

section \<open>The function set (\<open>slgep_lib/function_set.py\<close>)\<close>

text \<open>
  The module runs \<open>np.seterr(all='raise')\<close>, so a NumPy ufunc either returns a float or
  raises \<open>FloatingPointError\<close> (or anything else). The ufuncs belong to NumPy, not to this
  repository: they are a parameter of the model, each one a function that may raise.
\<close>

record numpy =
  np_add :: "fval \<Rightarrow> fval \<Rightarrow> error + fval"
  np_subtract :: "fval \<Rightarrow> fval \<Rightarrow> error + fval"
  np_multiply :: "fval \<Rightarrow> fval \<Rightarrow> error + fval"
  np_divide :: "fval \<Rightarrow> fval \<Rightarrow> error + fval"
  np_log :: "fval \<Rightarrow> error + fval"
  np_sin :: "fval \<Rightarrow> error + fval"
  np_cos :: "fval \<Rightarrow> error + fval"
  np_exp :: "fval \<Rightarrow> error + fval"

text \<open>
  \<open>try: c = f(...) except: return np.nan; return c\<close>: the bare \<open>except\<close> catches every
  exception of the guarded call.
\<close>

definition try_nan :: "error + fval \<Rightarrow> error + fval" where
  "try_nan r = (case r of Inl e \<Rightarrow> Inr NaN | Inr c \<Rightarrow> Inr c)"

definition add :: "numpy \<Rightarrow> fval \<Rightarrow> fval \<Rightarrow> error + fval" where
  "add np a b = try_nan (np_add np a b)"

definition subtract :: "numpy \<Rightarrow> fval \<Rightarrow> fval \<Rightarrow> error + fval" where
  "subtract np a b = try_nan (np_subtract np a b)"

definition multiply :: "numpy \<Rightarrow> fval \<Rightarrow> fval \<Rightarrow> error + fval" where
  "multiply np a b = try_nan (np_multiply np a b)"

definition divide_fs :: "numpy \<Rightarrow> fval \<Rightarrow> fval \<Rightarrow> error + fval" where
  "divide_fs np a b = (if py_eq0 b then Inr NaN else try_nan (np_divide np a b))"

definition log_fs :: "numpy \<Rightarrow> fval \<Rightarrow> error + fval" where
  "log_fs np a = (if py_eq0 a then Inr NaN else try_nan (np_log np a))"

definition take_sin :: "numpy \<Rightarrow> fval \<Rightarrow> error + fval" where
  "take_sin np a = try_nan (np_sin np a)"

definition take_cos :: "numpy \<Rightarrow> fval \<Rightarrow> error + fval" where
  "take_cos np a = try_nan (np_cos np a)"

definition exp_fs :: "numpy \<Rightarrow> fval \<Rightarrow> error + fval" where
  "exp_fs np a = (if py_ge88 a then Inr NaN else try_nan (np_exp np a))"

text \<open>
  An entry of \<open>FUNCTION_SET\<close>. The \<open>func\<close> of an entry is a lambda of one or two
  parameters; it is applied to the list of its arguments, and a call with another number
  of arguments is Python's \<open>TypeError\<close>.
\<close>

record primitive =
  name :: string
  func :: "fval list \<Rightarrow> error + fval"
  arity :: nat

definition lambda1 :: "(fval \<Rightarrow> error + fval) \<Rightarrow> fval list \<Rightarrow> error + fval" where
  "lambda1 f args = (case args of [a] \<Rightarrow> f a | _ \<Rightarrow> Inl TypeError)"

definition lambda2 :: "(fval \<Rightarrow> fval \<Rightarrow> error + fval) \<Rightarrow> fval list \<Rightarrow> error + fval" where
  "lambda2 f args = (case args of [a, b] \<Rightarrow> f a b | _ \<Rightarrow> Inl TypeError)"

definition FUNCTION_SET :: "numpy \<Rightarrow> primitive list" where
  "FUNCTION_SET np =
    [\<lparr>name = ''+'', func = lambda2 (\<lambda>a b. add np a b), arity = 2\<rparr>,
     \<lparr>name = ''-'', func = lambda2 (\<lambda>a b. subtract np a b), arity = 2\<rparr>,
     \<lparr>name = ''*'', func = lambda2 (\<lambda>a b. multiply np a b), arity = 2\<rparr>,
     \<lparr>name = ''/'', func = lambda2 (\<lambda>a b. divide_fs np a b), arity = 2\<rparr>,
     \<lparr>name = ''sin'', func = lambda1 (\<lambda>a. take_sin np a), arity = 1\<rparr>,
     \<lparr>name = ''cos'', func = lambda1 (\<lambda>a. take_cos np a), arity = 1\<rparr>,
     \<lparr>name = ''e^x'', func = lambda1 (\<lambda>a. exp_fs np a), arity = 1\<rparr>,
     \<lparr>name = ''ln|x|'', func = lambda1 (\<lambda>a. log_fs np (np_abs a)), arity = 1\<rparr>]"

definition create_function_set :: "numpy \<Rightarrow> primitive list" where
  "create_function_set np = FUNCTION_SET np"

text \<open>
  NumPy's ufuncs follow IEEE 754 on a quiet NaN: the result is NaN, unless the call
  raises. This is the only fact about NumPy that the propagation law needs.
\<close>

definition quiet_nan1 :: "(fval \<Rightarrow> error + fval) \<Rightarrow> bool" where
  "quiet_nan1 f = (case f NaN of Inl e \<Rightarrow> True | Inr c \<Rightarrow> c = NaN)"

definition quiet_nan2 :: "(fval \<Rightarrow> fval \<Rightarrow> error + fval) \<Rightarrow> bool" where
  "quiet_nan2 f = (\<forall>x. (case f NaN x of Inl e \<Rightarrow> True | Inr c \<Rightarrow> c = NaN)
                     \<and> (case f x NaN of Inl e \<Rightarrow> True | Inr c \<Rightarrow> c = NaN))"

definition ieee_nan :: "numpy \<Rightarrow> bool" where
  "ieee_nan np \<longleftrightarrow>
     quiet_nan2 (np_add np) \<and> quiet_nan2 (np_subtract np) \<and> quiet_nan2 (np_multiply np)
     \<and> quiet_nan2 (np_divide np) \<and> quiet_nan1 (np_log np) \<and> quiet_nan1 (np_sin np)
     \<and> quiet_nan1 (np_cos np) \<and> quiet_nan1 (np_exp np)"

text \<open>
  An instance of the ufunc interface with exact arithmetic on finite values, used to run
  the primitives on concrete inputs: a division by zero, a logarithm of a non-positive
  number, an exponent above 709 and an infinite operand raise, a NaN operand gives NaN.
\<close>

fun exact2 :: "(real \<Rightarrow> real \<Rightarrow> real) \<Rightarrow> fval \<Rightarrow> fval \<Rightarrow> error + fval" where
  "exact2 f NaN _ = Inr NaN"
| "exact2 f _ NaN = Inr NaN"
| "exact2 f (Num x) (Num y) = Inr (Num (f x y))"
| "exact2 f _ _ = Inl FloatingPointError"

fun exact1 :: "(real \<Rightarrow> bool) \<Rightarrow> (real \<Rightarrow> real) \<Rightarrow> fval \<Rightarrow> error + fval" where
  "exact1 ok f NaN = Inr NaN"
| "exact1 ok f (Num x) = (if ok x then Inr (Num (f x)) else Inl FloatingPointError)"
| "exact1 ok f _ = Inl FloatingPointError"

definition np_exact :: numpy where
  "np_exact =
    \<lparr>np_add = exact2 (\<lambda>x y. x + y),
     np_subtract = exact2 (\<lambda>x y. x - y),
     np_multiply = exact2 (\<lambda>x y. x * y),
     np_divide = (\<lambda>a b. if b = Num 0 then Inl FloatingPointError else exact2 (\<lambda>x y. x / y) a b),
     np_log = exact1 (\<lambda>x. 0 < x) ln,
     np_sin = exact1 (\<lambda>x. True) sin,
     np_cos = exact1 (\<lambda>x. True) cos,
     np_exp = exact1 (\<lambda>x. x \<le> 709) exp\<rparr>"

section \<open>The evolution driver (\<open>gym_evaluate/mfeaii_mgp.py\<close>)\<close>

subsection \<open>Python sequencing and indexing\<close>

text \<open>Sequencing of statements that may raise: the first exception ends the computation.\<close>

definition and_then :: "error + 'a \<Rightarrow> ('a \<Rightarrow> error + 'b) \<Rightarrow> error + 'b" where
  "and_then m f = (case m of Inl e \<Rightarrow> Inl e | Inr x \<Rightarrow> f x)"

text \<open>\<open>xs[i]\<close> for an index that is not negative: out of range is \<open>IndexError\<close>.\<close>

definition py_get :: "'a list \<Rightarrow> nat \<Rightarrow> error + 'a" where
  "py_get xs i = (if i < length xs then Inr (xs ! i) else Inl IndexError)"

text \<open>A list comprehension \<open>[f(i) for i in ...]\<close>, evaluated left to right.\<close>

fun collect :: "(nat \<Rightarrow> error + 'a) \<Rightarrow> nat list \<Rightarrow> error + 'a list" where
  "collect f [] = Inr []"
| "collect f (i # js) = and_then (f i) (\<lambda>x. and_then (collect f js) (\<lambda>xs. Inr (x # xs)))"

text \<open>\<open>m[i, j]\<close> on a two-dimensional array.\<close>

definition np_index2 :: "real list list \<Rightarrow> nat \<Rightarrow> nat \<Rightarrow> error + real" where
  "np_index2 m i j = and_then (py_get m i) (\<lambda>row. py_get row j)"

text \<open>\<open>np.max\<close> of a one-dimensional array: a zero-size array has no maximum, which
  is \<open>ValueError\<close>.\<close>

fun np_max :: "'a::linorder list \<Rightarrow> error + 'a" where
  "np_max [] = Inl ValueError"
| "np_max (x # xs) = Inr (fold max xs x)"

subsection \<open>Chromosomes, environments, configuration\<close>

text \<open>
  The attributes of a chromosome that the driver reads or writes: the gene vector, the
  skill factor \<open>sf\<close> and the dimension \<open>D\<close> (the field \<open>chrom_D\<close>).
\<close>

record chromosome =
  gene :: "real list"
  sf :: nat
  chrom_D :: nat

text \<open>
  A task environment as the driver sees it at setup: \<open>action_space.n\<close> and the length
  \<open>reset().shape[0]\<close> of the observation vector that \<open>reset\<close> returns.
\<close>

record env =
  action_space_n :: int
  reset_shape0 :: nat

text \<open>A value of the configuration dictionary: a Python int or float.\<close>

datatype pyval = PInt int | PFloat real

type_synonym config = "string \<Rightarrow> pyval option"

text \<open>\<open>config[key]\<close>: a missing key is \<open>KeyError\<close>.\<close>

definition lookup :: "config \<Rightarrow> string \<Rightarrow> error + pyval" where
  "lookup cfg key = (case cfg key of None \<Rightarrow> Inl KeyError | Some v \<Rightarrow> Inr v)"

text \<open>\<open>v * n\<close> for a configuration value and an int.\<close>

fun py_times :: "pyval \<Rightarrow> int \<Rightarrow> pyval" where
  "py_times (PInt i) n = PInt (i * n)"
| "py_times (PFloat x) n = PFloat (x * of_int n)"

text \<open>The message of a generation's report.\<close>

record message =
  algorithm :: string
  rmp :: real

subsection \<open>Collaborators\<close>

text \<open>
  The population class \<open>Slgep_pop\<close> (imported from \<open>slgep_lib.chromosome_continuous\<close>) and
  NumPy's random generator are not among the source files: their methods are parameters of
  the model. Each one is a function of the
  population list \<open>population.pop\<close> and of the state \<open>'r\<close> of the random generator,
  which it returns advanced; it is taken to return normally and to leave the population
  list as it is, except for \<open>evaluate\<close>, \<open>sort\<close> and \<open>permute\<close>, which return the
  new list. \<open>mutate\<close> gets \<open>Some pmdi\<close> when the call passes a third argument.
  \<open>randint n\<close> is the index that \<open>np.random.choice\<close> draws for a sequence of length \<open>n\<close>,
  and \<open>round1\<close> is \<open>round(x, 1)\<close>.

  \<open>np_mean\<close> and \<open>np_std\<close> are \<open>np.mean(a, axis=0)\<close> and \<open>np.std(a, axis=0)\<close> of the
  array built from a list of gene vectors, and \<open>norm_pdf\<close> is
  \<open>scipy.stats.norm.pdf(x, loc, scale)\<close>. They compute in floating point and may raise
  (\<open>np.seterr(all='raise')\<close> is in force), so they are parameters as well: the model fixes
  neither their rounding nor the inputs on which they raise. A float is carried as the real
  number that it denotes.
\<close>

record ('r, 'res) collaborators =
  Slgep_pop :: "int \<Rightarrow> nat \<Rightarrow> int \<Rightarrow> pyval \<Rightarrow> pyval \<Rightarrow> pyval \<Rightarrow> pyval \<Rightarrow> nat \<Rightarrow> 'r
                \<Rightarrow> chromosome list \<times> 'r"
  evaluate :: "env list \<Rightarrow> chromosome list \<Rightarrow> 'r \<Rightarrow> chromosome list \<times> 'r"
  sort_pop :: "chromosome list \<Rightarrow> chromosome list"
  permute :: "chromosome list \<Rightarrow> 'r \<Rightarrow> chromosome list \<times> 'r"
  get_subpops :: "chromosome list \<Rightarrow> chromosome list list"
  learn_rmp :: "chromosome list \<Rightarrow> chromosome list list \<Rightarrow> 'r \<Rightarrow> real list list \<times> 'r"
  crossover_mul :: "chromosome list \<Rightarrow> chromosome list \<Rightarrow> real list list \<Rightarrow> 'r
                    \<Rightarrow> chromosome list \<times> 'r"
  crossover_mul_second :: "chromosome list \<Rightarrow> chromosome list \<Rightarrow> real list list
                    \<Rightarrow> real list list \<Rightarrow> 'r \<Rightarrow> chromosome list \<times> 'r"
  mutate :: "chromosome list \<Rightarrow> chromosome \<Rightarrow> pyval \<Rightarrow> pyval option \<Rightarrow> 'r \<Rightarrow> chromosome \<times> 'r"
  find_relative :: "chromosome list \<Rightarrow> nat \<Rightarrow> 'r \<Rightarrow> chromosome \<times> 'r"
  get_optimization_results :: "chromosome list \<Rightarrow> nat \<Rightarrow> message \<Rightarrow> 'res"
  random_normal :: "real \<Rightarrow> real \<Rightarrow> nat \<Rightarrow> nat \<Rightarrow> 'r \<Rightarrow> real list list \<times> 'r"
  random_rand :: "'r \<Rightarrow> real \<times> 'r"
  randint :: "nat \<Rightarrow> 'r \<Rightarrow> nat \<times> 'r"
  round1 :: "real \<Rightarrow> real"
  np_mean :: "real list list \<Rightarrow> error + real list"
  np_std :: "real list list \<Rightarrow> error + real list"
  norm_pdf :: "real \<Rightarrow> real \<Rightarrow> real \<Rightarrow> error + real"

text \<open>
  \<open>np.random.choice(a)\<close>: the element of \<open>a\<close> at a drawn index; an empty \<open>a\<close> is
  \<open>ValueError\<close>. NumPy draws the index below \<open>len(a)\<close>; the model reduces what the
  generator gives modulo \<open>len(a)\<close>.
\<close>

definition random_choice :: "('r, 'res) collaborators \<Rightarrow> 'a list \<Rightarrow> 'r \<Rightarrow> error + 'a \<times> 'r" where
  "random_choice C xs r =
     (if xs = [] then Inl ValueError
      else (case randint C (length xs) r of (u, r') \<Rightarrow> Inr (xs ! (u mod length xs), r')))"

subsection \<open>The blend coefficients\<close>

text \<open>
  One entry \<open>bl[i][j]\<close> of the likelihood-weighted mode. It starts as 1; the test
  \<open>std[j] == 0\<close> is on the float that \<open>np.std\<close> has returned, and only the other branch
  calls \<open>norm.pdf\<close>.
\<close>

definition beta_cell :: "('r, 'res) collaborators \<Rightarrow> real list \<Rightarrow> real list \<Rightarrow> real list \<Rightarrow> nat
    \<Rightarrow> error + real" where
  "beta_cell C g mean std j =
     and_then (py_get std j) (\<lambda>s.
       if s = 0 then Inr (1 * 1)
       else and_then (py_get g j) (\<lambda>x.
            and_then (py_get mean j) (\<lambda>m.
            and_then (norm_pdf C x m s) (\<lambda>d. Inr (1 * d)))))"

text \<open>The row \<open>bl[i]\<close> of parent \<open>p = parents[i]\<close>.\<close>

definition beta_row :: "('r, 'res) collaborators \<Rightarrow> chromosome list list \<Rightarrow> nat \<Rightarrow> chromosome
    \<Rightarrow> error + real list" where
  "beta_row C subpops D p =
     and_then (py_get subpops (sf p)) (\<lambda>subpop.
     let concatenate_gene = map gene subpop in
     and_then (np_mean C concatenate_gene) (\<lambda>mean.
     and_then (np_std C concatenate_gene) (\<lambda>std.
       collect (beta_cell C (gene p) mean std) [0..<D])))"

text \<open>
  The local variables of \<open>mfeaii_mgp\<close> that the pairing loop reads (the fields \<open>lc_N\<close>,
  \<open>lc_no_par\<close>, ... are the variables \<open>N\<close>, \<open>no_par\<close>, ...). Inside the loop \<open>N\<close> and
  \<open>no_par\<close> are positive ints, hence naturals.
\<close>

record locals =
  normal_beta :: bool
  lc_N :: nat
  lc_no_par :: nat
  lc_D :: nat
  lc_mr :: pyval
  lc_pmdi :: pyval
  lc_subpops :: "chromosome list list"
  lc_rmp_matrix :: "real list list"

definition set_beta :: "('r, 'res) collaborators \<Rightarrow> locals \<Rightarrow> nat \<Rightarrow> chromosome list \<Rightarrow> 'r
    \<Rightarrow> error + real list list \<times> 'r" where
  "set_beta C L no_p parents r =
     (if normal_beta L then Inr (random_normal C (7 / 10) (1 / 10) no_p (lc_D L) r)
      else and_then (collect (\<lambda>i. beta_row C (lc_subpops L) (lc_D L) (parents ! i)) [0..<no_p])
             (\<lambda>bl. Inr (bl, r)))"

subsection \<open>One parent group\<close>

text \<open>The maximum RMP between the first parent and the others.\<close>

definition max_rmp_of :: "locals \<Rightarrow> chromosome list \<Rightarrow> nat \<Rightarrow> error + real" where
  "max_rmp_of L parents no_p =
     and_then (collect (\<lambda>i. np_index2 (lc_rmp_matrix L) (sf (parents ! 0)) (sf (parents ! i)))
                 [1..<no_p]) np_max"

definition same_sf :: "chromosome list \<Rightarrow> nat \<Rightarrow> bool" where
  "same_sf parents no_p = list_all (\<lambda>i. sf (parents ! i) = sf (parents ! (i + 1))) [0..<no_p - 1]"

text \<open>
  \<open>for i in range(no_p): cl[i] = body(cl[i])\<close>: the loops that mutate the children and
  set their skill factor. \<open>cl[i]\<close> beyond the children that the crossover returned is
  \<open>IndexError\<close>.
\<close>

fun for_children :: "(chromosome \<Rightarrow> 'r \<Rightarrow> error + chromosome \<times> 'r) \<Rightarrow> nat list
    \<Rightarrow> chromosome list \<times> 'r \<Rightarrow> error + chromosome list \<times> 'r" where
  "for_children body [] s = Inr s"
| "for_children body (i # js) (cl, r) =
     and_then (py_get cl i) (\<lambda>c.
     and_then (body c r) (\<lambda>(c', r'). for_children body js (cl[i := c'], r')))"

text \<open>
  \<open>for i in range(1, no_p): parents[i] = population.find_relative(parents[0].sf)\<close>;
  \<open>parents\<close> has \<open>no_p\<close> elements, so the assignment is in range.
\<close>

fun find_relatives :: "('r, 'res) collaborators \<Rightarrow> chromosome list \<Rightarrow> nat list
    \<Rightarrow> chromosome list \<times> 'r \<Rightarrow> chromosome list \<times> 'r" where
  "find_relatives C pop [] s = s"
| "find_relatives C pop (i # js) (parents, r) =
     (case find_relative C pop (sf (parents ! 0)) r of
        (c, r') \<Rightarrow> find_relatives C pop js (parents[i := c], r'))"

text \<open>\<open>for i in range(no_p): population.pop[N + k + i] = cl[i]\<close>.\<close>

fun replace_with_children :: "nat \<Rightarrow> chromosome list \<Rightarrow> nat list \<Rightarrow> chromosome list
    \<Rightarrow> error + chromosome list" where
  "replace_with_children base cl [] pop = Inr pop"
| "replace_with_children base cl (i # js) pop =
     and_then (py_get cl i) (\<lambda>c.
       if base + i < length pop then replace_with_children base cl js (pop[base + i := c])
       else Inl IndexError)"

text \<open>The bodies of the three child loops.\<close>

definition same_task_child :: "('r, 'res) collaborators \<Rightarrow> chromosome list \<Rightarrow> pyval
    \<Rightarrow> pyval option \<Rightarrow> chromosome list \<Rightarrow> chromosome \<Rightarrow> 'r \<Rightarrow> error + chromosome \<times> 'r" where
  "same_task_child C pop mr pmdi parents c r =
     (case mutate C pop c mr pmdi r of (c', r') \<Rightarrow> Inr (c'\<lparr>sf := sf (parents ! 0)\<rparr>, r'))"

definition cross_task_child :: "('r, 'res) collaborators \<Rightarrow> chromosome list \<Rightarrow> pyval
    \<Rightarrow> chromosome list \<Rightarrow> chromosome \<Rightarrow> 'r \<Rightarrow> error + chromosome \<times> 'r" where
  "cross_task_child C pop mr parents c r =
     (case mutate C pop c mr None r of (c', r') \<Rightarrow>
        let sf_assign = map sf parents in
        and_then (random_choice C sf_assign r') (\<lambda>(s, r''). Inr (c'\<lparr>sf := s\<rparr>, r'')))"

text \<open>
  The body of the loop \<open>for k in range(0, N, no_par)\<close>, on the population list and the
  generator state. In the branch of one shared skill factor the child loop has no
  \<open>break\<close>, so its \<open>else\<close> clause runs and \<open>continue\<close> goes to the next group: the
  statements that replace the offspring slots are not reached.
\<close>

definition pair_group :: "('r, 'res) collaborators \<Rightarrow> locals \<Rightarrow> nat \<Rightarrow> chromosome list \<times> 'r
    \<Rightarrow> error + chromosome list \<times> 'r" where
  "pair_group C L k s =
     (case s of (pop, r) \<Rightarrow>
      let no_p = min (lc_N L - k) (lc_no_par L) in
      and_then (collect (\<lambda>i. py_get pop (k + i)) [0..<no_p]) (\<lambda>parents.
      and_then (set_beta C L no_p parents r) (\<lambda>(bl, r1).
      and_then (max_rmp_of L parents no_p) (\<lambda>max_rmp.
      if same_sf parents no_p then
        (case crossover_mul C pop parents bl r1 of (cl, r2) \<Rightarrow>
         and_then (for_children (same_task_child C pop (lc_mr L) (Some (lc_pmdi L)) parents)
                     [0..<no_p] (cl, r2))
           (\<lambda>(cl', r3). Inr (pop, r3)))
      else
        (case random_rand C r1 of (u, r2) \<Rightarrow>
         if u < max_rmp then
           (case crossover_mul_second C pop parents bl (lc_rmp_matrix L) r2 of (cl, r3) \<Rightarrow>
            and_then (for_children (cross_task_child C pop (lc_mr L) parents) [0..<no_p] (cl, r3))
              (\<lambda>(cl', r4).
            and_then (replace_with_children (lc_N L + k) cl' [0..<no_p] pop)
              (\<lambda>pop'. Inr (pop', r4))))
         else
           (case find_relatives C pop [1..<no_p] (parents, r2) of (parents', r3) \<Rightarrow>
            (case crossover_mul C pop parents' bl r3 of (cl, r4) \<Rightarrow>
             and_then (for_children (same_task_child C pop (lc_mr L) None parents')
                         [0..<no_p] (cl, r4))
               (\<lambda>(cl', r5).
             and_then (replace_with_children (lc_N L + k) cl' [0..<no_p] pop)
               (\<lambda>pop'. Inr (pop', r5))))))))))"

subsection \<open>The pairing loop and the generations\<close>

text \<open>\<open>for k in range(0, N, no_par)\<close> for a positive step, from the start \<open>k\<close> on.\<close>

function pairing_from :: "('r, 'res) collaborators \<Rightarrow> locals \<Rightarrow> nat \<Rightarrow> chromosome list \<times> 'r
    \<Rightarrow> error + chromosome list \<times> 'r" where
  "pairing_from C L k s =
     (if k < lc_N L \<and> 0 < lc_no_par L
      then and_then (pair_group C L k s) (pairing_from C L (k + lc_no_par L))
      else Inr s)"
  by pat_completeness auto
termination
  by (relation "measure (\<lambda>(C, L, k, s). lc_N L - k)") auto


text \<open>
  The values that \<open>mfeaii_mgp\<close> unpacks before it builds the population (the fields carry
  the names of the Python variables). \<open>N\<close>, \<open>T\<close> and \<open>no_par\<close> stay configuration
  values: a float among them is \<open>TypeError\<close> where \<open>range\<close> receives it.
\<close>

record hyper =
  hp_K :: nat
  hp_N :: pyval
  hp_T :: pyval
  hp_no_par :: pyval
  hp_mr :: pyval
  hp_sbxdi :: pyval
  hp_pmdi :: pyval
  hp_pswap :: pyval
  hp_max_arity :: pyval
  hp_h_main :: pyval
  hp_h_adf :: pyval
  hp_no_main :: int
  hp_no_adf :: int
  hp_no_terminal :: nat

text \<open>
  The loop \<open>for k in range(0, N, no_par)\<close> of one generation. A step of zero is
  \<open>ValueError\<close>. With a negative step the range is empty unless \<open>N\<close> is negative too;
  then the first group has a negative size, which the construction of \<open>bl\<close> rejects
  with \<open>ValueError\<close>.
\<close>

definition pairing_loop :: "('r, 'res) collaborators \<Rightarrow> bool \<Rightarrow> hyper \<Rightarrow> nat
    \<Rightarrow> chromosome list list \<Rightarrow> real list list \<Rightarrow> chromosome list \<times> 'r
    \<Rightarrow> error + chromosome list \<times> 'r" where
  "pairing_loop C nb H D subpops rmp_matrix s =
     (case (hp_N H, hp_no_par H) of
        (PInt N, PInt no_par) \<Rightarrow>
          if no_par = 0 then Inl ValueError
          else if 0 < no_par then
            pairing_from C \<lparr>normal_beta = nb, lc_N = nat N, lc_no_par = nat no_par, lc_D = D,
              lc_mr = hp_mr H, lc_pmdi = hp_pmdi H, lc_subpops = subpops,
              lc_rmp_matrix = rmp_matrix\<rparr> 0 s
          else if N < 0 then Inl ValueError
          else Inr s
      | _ \<Rightarrow> Inl TypeError)"

text \<open>
  One pass of the loop \<open>for t in iterator\<close>, up to the results that the callback
  receives. The progress bar is not modelled.
\<close>

definition generation :: "('r, 'res) collaborators \<Rightarrow> env list \<Rightarrow> bool \<Rightarrow> hyper \<Rightarrow> nat \<Rightarrow> nat
    \<Rightarrow> chromosome list \<times> 'r \<Rightarrow> error + (chromosome list \<times> 'r) \<times> 'res" where
  "generation C envs nb H D t s =
     (case s of (pop, r) \<Rightarrow>
      case permute C pop r of (pop1, r1) \<Rightarrow>
      let subpops = get_subpops C pop1 in
      case learn_rmp C pop1 subpops r1 of (rmp_matrix, r2) \<Rightarrow>
      and_then (pairing_loop C nb H D subpops rmp_matrix (pop1, r2)) (\<lambda>(pop2, r3).
      case evaluate C envs pop2 r3 of (pop3, r4) \<Rightarrow>
      let pop4 = sort_pop C pop3 in
      and_then (np_index2 rmp_matrix 0 1) (\<lambda>x.
      let message = \<lparr>algorithm = ''mfeaii_mp'', rmp = round1 C x\<rparr>;
          results = get_optimization_results C pop4 t message
      in Inr ((pop4, r4), results))))"

text \<open>
  The generations \<open>ts\<close> in turn. The first component of the result collects what the
  callback has received (nothing when \<open>callback\<close> is \<open>None\<close>), the second is the
  exception that ended the run or the final state.
\<close>

fun generations :: "(nat \<Rightarrow> chromosome list \<times> 'r \<Rightarrow> error + (chromosome list \<times> 'r) \<times> 'res)
    \<Rightarrow> bool \<Rightarrow> nat list \<Rightarrow> chromosome list \<times> 'r \<Rightarrow> 'res list
    \<Rightarrow> 'res list \<times> (error + chromosome list \<times> 'r)" where
  "generations G callback [] s out = (out, Inr s)"
| "generations G callback (t # ts) s out =
     (case G t s of
        Inl e \<Rightarrow> (out, Inl e)
      | Inr (s', results) \<Rightarrow>
          generations G callback ts s' (if callback then out @ [results] else out))"

text \<open>
  Lines 11 to 27: unpacking the hyper-parameters. The initial \<open>rmp_matrix\<close> of zeros is
  left out, since \<open>learn_rmp\<close> replaces it before it is read.
\<close>

definition unpack :: "env list \<Rightarrow> config \<Rightarrow> error + hyper" where
  "unpack envs cfg =
     (let K = length envs in
      and_then (lookup cfg ''pop_size'') (\<lambda>pop_size.
      and_then (lookup cfg ''num_iter'') (\<lambda>T.
      and_then (lookup cfg ''num_par'') (\<lambda>no_par.
      and_then (lookup cfg ''mutation_rate'') (\<lambda>mr.
      and_then (lookup cfg ''sbxdi'') (\<lambda>sbxdi.
      and_then (lookup cfg ''pmdi'') (\<lambda>pmdi.
      and_then (lookup cfg ''pswap'') (\<lambda>pswap.
      and_then (lookup cfg ''max_arity'') (\<lambda>max_arity.
      and_then (lookup cfg ''h_main'') (\<lambda>h_main.
      and_then (lookup cfg ''h_adf'') (\<lambda>h_adf.
      and_then (py_get envs 0) (\<lambda>env0.
      let no_main = action_space_n env0; no_adf = no_main * 2 in
      and_then (np_max (map reset_shape0 envs)) (\<lambda>no_terminal.
        Inr \<lparr>hp_K = K, hp_N = py_times pop_size (int K), hp_T = T, hp_no_par = no_par,
             hp_mr = mr, hp_sbxdi = sbxdi, hp_pmdi = pmdi, hp_pswap = pswap,
             hp_max_arity = max_arity, hp_h_main = h_main, hp_h_adf = h_adf,
             hp_no_main = no_main, hp_no_adf = no_adf,
             hp_no_terminal = no_terminal\<rparr>)))))))))))))"

text \<open>\<open>trange(T)\<close>: the generations \<open>0, ..., T - 1\<close>; a float is \<open>TypeError\<close>.\<close>

definition trange :: "pyval \<Rightarrow> error + nat list" where
  "trange T = (case T of PInt n \<Rightarrow> Inr [0..<nat n] | PFloat x \<Rightarrow> Inl TypeError)"

text \<open>
  Lines 33 to 143: what the driver does with the population that the constructor has
  returned. \<open>callback\<close> tells whether a callback was given; the result is what the
  callback received, and the exception that ended the run or the final population and
  generator state.
\<close>

definition evolve :: "('r, 'res) collaborators \<Rightarrow> env list \<Rightarrow> bool \<Rightarrow> bool \<Rightarrow> hyper
    \<Rightarrow> chromosome list \<times> 'r \<Rightarrow> 'res list \<times> (error + chromosome list \<times> 'r)" where
  "evolve C envs callback nb H s0 =
     (case s0 of
        (pop0, r1) \<Rightarrow>
          (case py_get pop0 0 of
             Inl e \<Rightarrow> ([], Inl e)
           | Inr c0 \<Rightarrow>
               let D = chrom_D c0 in
               (case evaluate C envs pop0 r1 of
                  (pop1, r2) \<Rightarrow>
                    let pop2 = sort_pop C pop1 in
                    (case trange (hp_T H) of
                       Inl e \<Rightarrow> ([], Inl e)
                     | Inr ts \<Rightarrow>
                         generations (generation C envs nb H D) callback ts (pop2, r2) []))))"

text \<open>
  The driver: the hyper-parameters are unpacked, the population is constructed with
  \<open>no_pop = 2 * N\<close> and \<open>no_task = K\<close>, and the run goes on from it.
\<close>

definition mfeaii_mgp :: "('r, 'res) collaborators \<Rightarrow> env list \<Rightarrow> config \<Rightarrow> bool \<Rightarrow> bool \<Rightarrow> 'r
    \<Rightarrow> 'res list \<times> (error + chromosome list \<times> 'r)" where
  "mfeaii_mgp C envs cfg callback nb r0 =
     (case unpack envs cfg of
        Inl e \<Rightarrow> ([], Inl e)
      | Inr H \<Rightarrow>
          evolve C envs callback nb H
            (Slgep_pop C (hp_no_adf H) (hp_no_terminal H) (hp_no_main H) (hp_h_main H)
               (hp_max_arity H) (hp_h_adf H) (py_times (hp_N H) 2) (hp_K H) r0))"

subsection \<open>An instance of the collaborators\<close>

text \<open>
  A small deterministic instance for \<open>K\<close> tasks, used to run the driver on concrete
  inputs: the generator state is a counter, a crossover halves the genes of the parents,
  a mutation adds one to every gene, every learned RMP is 1, every uniform draw is 1/2.

  For the NumPy and SciPy functions the instance has stand-ins in exact real arithmetic:
  the mean and the standard deviation of every column, and the normal density, which
  raises for a scale of zero (SciPy divides by the scale first) and is given no value for
  a negative one. They are not the floating-point functions; nothing but the instance uses
  them.
\<close>

definition exact_mean :: "real list \<Rightarrow> real" where
  "exact_mean xs = sum_list xs / real (length xs)"

definition exact_std :: "real list \<Rightarrow> real" where
  "exact_std xs = sqrt (exact_mean (map (\<lambda>x. \<bar>x - exact_mean xs\<bar> ^ 2) xs))"

definition column :: "real list list \<Rightarrow> nat \<Rightarrow> real list" where
  "column rows j = map (\<lambda>row. row ! j) rows"

definition axis0 :: "(real list \<Rightarrow> real) \<Rightarrow> real list list \<Rightarrow> error + real list" where
  "axis0 f rows =
     (case rows of
        [] \<Rightarrow> Inl FloatingPointError
      | row # _ \<Rightarrow>
          if list_all (\<lambda>r. length r = length row) rows
          then Inr (map (\<lambda>j. f (column rows j)) [0..<length row])
          else Inl ValueError)"

definition exact_pdf :: "real \<Rightarrow> real \<Rightarrow> real \<Rightarrow> error + real" where
  "exact_pdf x loc scale =
     (if scale = 0 then Inl FloatingPointError
      else if scale < 0 then Inl ValueError
      else Inr (exp (- (((x - loc) / scale) ^ 2) / 2) / sqrt (2 * pi) / scale))"

definition halve :: "chromosome \<Rightarrow> chromosome" where
  "halve p = p\<lparr>gene := map (\<lambda>x. x / 2) (gene p)\<rparr>"

definition bump :: "chromosome \<Rightarrow> chromosome" where
  "bump c = c\<lparr>gene := map (\<lambda>x. x + 1) (gene c)\<rparr>"

definition first_of_task :: "chromosome list \<Rightarrow> nat \<Rightarrow> chromosome" where
  "first_of_task pop s =
     (case filter (\<lambda>c. sf c = s) pop of
        [] \<Rightarrow> \<lparr>gene = [], sf = s, chrom_D = 0\<rparr>
      | c # _ \<Rightarrow> c)"

definition initial_pop :: "pyval \<Rightarrow> nat \<Rightarrow> chromosome list" where
  "initial_pop no_pop no_task =
     (case no_pop of
        PInt n \<Rightarrow> map (\<lambda>i. \<lparr>gene = [real i, 0], sf = i mod no_task, chrom_D = 2\<rparr>) [0..<nat n]
      | PFloat x \<Rightarrow> [])"

definition ref_ops :: "nat \<Rightarrow> (nat, nat \<times> message) collaborators" where
  "ref_ops K =
    \<lparr>Slgep_pop = (\<lambda>no_adf no_terminal no_main h_main max_arity h_adf no_pop no_task r.
        (initial_pop no_pop no_task, r)),
     evaluate = (\<lambda>envs pop r. (pop, r)),
     sort_pop = (\<lambda>pop. pop),
     permute = (\<lambda>pop r. (pop, r)),
     get_subpops = (\<lambda>pop. map (\<lambda>t. filter (\<lambda>c. sf c = t) pop) [0..<K]),
     learn_rmp = (\<lambda>pop subpops r. (replicate K (replicate K 1), r)),
     crossover_mul = (\<lambda>pop parents bl r. (map halve parents, r)),
     crossover_mul_second = (\<lambda>pop parents bl rmp_matrix r. (map halve parents, r)),
     mutate = (\<lambda>pop c mr pmdi r. (bump c, r)),
     find_relative = (\<lambda>pop s r. (first_of_task pop s, r)),
     get_optimization_results = (\<lambda>pop t m. (t, m)),
     random_normal = (\<lambda>loc scale n d r. (replicate n (replicate d loc), r)),
     random_rand = (\<lambda>r. (1 / 2, Suc r)),
     randint = (\<lambda>n r. (r, Suc r)),
     round1 = (\<lambda>x. x),
     np_mean = axis0 exact_mean,
     np_std = axis0 exact_std,
     norm_pdf = exact_pdf\<rparr>"

text \<open>
  A second instance for two tasks, whose constructor and mutation show what they are
  given: the genes of the initial population are the head lengths and the arity, a
  mutation adds the mutation rate to every gene and, when it gets \<open>pmdi\<close>, advances the
  generator by it. The second chromosome belongs to task 1, the others to task 0.
\<close>

fun as_real :: "pyval \<Rightarrow> real" where
  "as_real (PInt i) = of_int i"
| "as_real (PFloat x) = x"

fun as_nat :: "pyval option \<Rightarrow> nat" where
  "as_nat (Some (PInt i)) = nat i"
| "as_nat _ = 0"

definition probe_pop :: "pyval \<Rightarrow> pyval \<Rightarrow> pyval \<Rightarrow> pyval \<Rightarrow> chromosome list" where
  "probe_pop h_main max_arity h_adf no_pop =
     (case no_pop of
        PInt n \<Rightarrow>
          map (\<lambda>i. \<lparr>gene = [as_real h_main, as_real max_arity, as_real h_adf],
                    sf = (if i = 1 then 1 else 0), chrom_D = 3\<rparr>) [0..<nat n]
      | PFloat x \<Rightarrow> [])"

definition probe_ops :: "(nat, nat \<times> message) collaborators" where
  "probe_ops = (ref_ops 2)
    \<lparr>Slgep_pop := (\<lambda>no_adf no_terminal no_main h_main max_arity h_adf no_pop no_task r.
        (probe_pop h_main max_arity h_adf no_pop, r)),
     mutate := (\<lambda>pop c mr pmdi r.
        (c\<lparr>gene := map (\<lambda>x. x + as_real mr) (gene c)\<rparr>, r + as_nat pmdi))\<rparr>"

definition ref_config :: config where
  "ref_config =
     [''pop_size'' \<mapsto> PInt 2, ''num_iter'' \<mapsto> PInt 1, ''num_par'' \<mapsto> PInt 2,
      ''mutation_rate'' \<mapsto> PFloat (1 / 10), ''sbxdi'' \<mapsto> PInt 2, ''pmdi'' \<mapsto> PInt 5,
      ''pswap'' \<mapsto> PFloat (1 / 2), ''max_arity'' \<mapsto> PInt 2, ''h_main'' \<mapsto> PInt 4,
      ''h_adf'' \<mapsto> PInt 3]"

subsection \<open>Concrete inputs\<close>

text \<open>
  Chromosomes of two tasks, the local variables of a run with \<open>N\<close> individuals and groups
  of \<open>p\<close> parents, and a subpopulation for the likelihood-weighted blend coefficients.
\<close>

definition ex_A :: chromosome where "ex_A = \<lparr>gene = [2, 4], sf = 0, chrom_D = 2\<rparr>"
definition ex_B :: chromosome where "ex_B = \<lparr>gene = [6, 8], sf = 0, chrom_D = 2\<rparr>"
definition ex_C :: chromosome where "ex_C = \<lparr>gene = [1, 3], sf = 1, chrom_D = 2\<rparr>"
definition ex_locals :: "nat \<Rightarrow> nat \<Rightarrow> locals" where
  "ex_locals n p = \<lparr>normal_beta = True, lc_N = n, lc_no_par = p, lc_D = 2, lc_mr = PFloat (1 / 10),
     lc_pmdi = PInt 5, lc_subpops = [], lc_rmp_matrix = [[1, 1], [1, 1]]\<rparr>"

definition ex_P :: chromosome where "ex_P = \<lparr>gene = [1, 0], sf = 0, chrom_D = 2\<rparr>"
definition ex_Q :: chromosome where "ex_Q = \<lparr>gene = [1, 2], sf = 0, chrom_D = 2\<rparr>"
definition ex_likelihood :: locals where
  "ex_likelihood = \<lparr>normal_beta = False, lc_N = 2, lc_no_par = 2, lc_D = 2,
     lc_mr = PFloat (1 / 10), lc_pmdi = PInt 5, lc_subpops = [[ex_P, ex_Q]],
     lc_rmp_matrix = [[1]]\<rparr>"

text \<open>
  An environment with two actions and observations of length \<open>d\<close>; the keys that
  \<open>mfeaii_mgp\<close> reads from the configuration, and those among them other than \<open>sbxdi\<close>
  and \<open>pswap\<close>; a \<open>K\<close> by \<open>K\<close> matrix, the shape of the RMP matrix.
\<close>

definition ex_env :: "nat \<Rightarrow> env" where
  "ex_env d = \<lparr>action_space_n = 2, reset_shape0 = d\<rparr>"

definition config_keys :: "string list" where
  "config_keys = [''pop_size'', ''num_iter'', ''num_par'', ''mutation_rate'', ''sbxdi'',
     ''pmdi'', ''pswap'', ''max_arity'', ''h_main'', ''h_adf'']"

definition effective_keys :: "string list" where
  "effective_keys = [''pop_size'', ''num_iter'', ''num_par'', ''mutation_rate'', ''pmdi'',
     ''max_arity'', ''h_main'', ''h_adf'']"

definition square :: "nat \<Rightarrow> real list list \<Rightarrow> bool" where
  "square K m \<longleftrightarrow> length m = K \<and> list_all (\<lambda>row. length row = K) m"

section \<open>Properties of the function set\<close>

lemma try_nan_returns: "\<exists>v. try_nan r = Inr v"
  by (cases r) (simp_all add: try_nan_def)

lemma try_nan_raise: "r = Inl e \<Longrightarrow> try_nan r = Inr NaN"
  by (simp add: try_nan_def)

lemma try_nan_quiet: "(case r of Inl e \<Rightarrow> True | Inr c \<Rightarrow> c = NaN) \<Longrightarrow> try_nan r = Inr NaN"
  by (cases r) (simp_all add: try_nan_def)

lemma ieee_nan_exact: "ieee_nan np_exact"
proof -
  have two: "quiet_nan2 (exact2 f)" for f
    unfolding quiet_nan2_def
  proof
    fix x show "(case exact2 f NaN x of Inl e \<Rightarrow> True | Inr c \<Rightarrow> c = NaN)
              \<and> (case exact2 f x NaN of Inl e \<Rightarrow> True | Inr c \<Rightarrow> c = NaN)"
      by (cases x) simp_all
  qed
  have one: "quiet_nan1 (exact1 ok f)" for ok f
    by (simp add: quiet_nan1_def)
  have dv: "quiet_nan2 (\<lambda>a b. if b = Num 0 then Inl FloatingPointError
                               else exact2 (\<lambda>x y. x / y) a b)"
    unfolding quiet_nan2_def
  proof
    fix x :: fval
    show "(case (if x = Num 0 then Inl FloatingPointError else exact2 (\<lambda>x y. x / y) NaN x)
             of Inl e \<Rightarrow> True | Inr c \<Rightarrow> c = NaN)
        \<and> (case (if NaN = Num 0 then Inl FloatingPointError else exact2 (\<lambda>x y. x / y) x NaN)
             of Inl e \<Rightarrow> True | Inr c \<Rightarrow> c = NaN)"
      by (cases x) simp_all
  qed
  show ?thesis
    by (simp add: ieee_nan_def np_exact_def two one dv)
qed

lemma lambda2_two: "lambda2 f [x, y] = f x y" by (simp add: lambda2_def)
lemma lambda1_one: "lambda1 f [x] = f x" by (simp add: lambda1_def)

lemma len2: "length args = 2 \<Longrightarrow> \<exists>x y. args = [x, y]"
  by (cases args; cases "tl args") auto
lemma len1: "length args = Suc 0 \<Longrightarrow> \<exists>x. args = [x]"
  by (cases args) auto

lemma add_returns: "\<exists>v. add np a b = Inr v" by (simp add: add_def try_nan_returns)
lemma subtract_returns: "\<exists>v. subtract np a b = Inr v" by (simp add: subtract_def try_nan_returns)
lemma multiply_returns: "\<exists>v. multiply np a b = Inr v" by (simp add: multiply_def try_nan_returns)
lemma divide_returns: "\<exists>v. divide_fs np a b = Inr v" by (simp add: divide_fs_def try_nan_returns)
lemma log_returns: "\<exists>v. log_fs np a = Inr v" by (simp add: log_fs_def try_nan_returns)
lemma sin_returns: "\<exists>v. take_sin np a = Inr v" by (simp add: take_sin_def try_nan_returns)
lemma cos_returns: "\<exists>v. take_cos np a = Inr v" by (simp add: take_cos_def try_nan_returns)
lemma exp_returns: "\<exists>v. exp_fs np a = Inr v" by (simp add: exp_fs_def try_nan_returns)

lemma function_set_returns:
  assumes "p \<in> set (FUNCTION_SET np)" "length args = arity p"
  shows "\<exists>v. func p args = Inr v"
proof -
  from assms(1) consider
      "func p = lambda2 (\<lambda>a b. add np a b)" "arity p = 2"
    | "func p = lambda2 (\<lambda>a b. subtract np a b)" "arity p = 2"
    | "func p = lambda2 (\<lambda>a b. multiply np a b)" "arity p = 2"
    | "func p = lambda2 (\<lambda>a b. divide_fs np a b)" "arity p = 2"
    | "func p = lambda1 (\<lambda>a. take_sin np a)" "arity p = 1"
    | "func p = lambda1 (\<lambda>a. take_cos np a)" "arity p = 1"
    | "func p = lambda1 (\<lambda>a. exp_fs np a)" "arity p = 1"
    | "func p = lambda1 (\<lambda>a. log_fs np (np_abs a))" "arity p = 1"
    by (auto simp: FUNCTION_SET_def)
  then show ?thesis
  proof cases
    case 1 with assms(2) len2 [of args] show ?thesis by (auto simp: lambda2_two add_returns)
  next
    case 2 with assms(2) len2 [of args] show ?thesis by (auto simp: lambda2_two subtract_returns)
  next
    case 3 with assms(2) len2 [of args] show ?thesis by (auto simp: lambda2_two multiply_returns)
  next
    case 4 with assms(2) len2 [of args] show ?thesis by (auto simp: lambda2_two divide_returns)
  next
    case 5 with assms(2) len1 [of args] show ?thesis by (auto simp: lambda1_one sin_returns)
  next
    case 6 with assms(2) len1 [of args] show ?thesis by (auto simp: lambda1_one cos_returns)
  next
    case 7 with assms(2) len1 [of args] show ?thesis by (auto simp: lambda1_one exp_returns)
  next
    case 8 with assms(2) len1 [of args] show ?thesis by (auto simp: lambda1_one log_returns)
  qed
qed

text \<open>
  Claim C4. No primitive raises: every one of the eight functions returns a value on every
  pair of scalar arguments, and so does every entry of \<open>FUNCTION_SET\<close> called with as many
  arguments as its arity. \<open>divide\<close> returns NaN when its divisor is zero, \<open>log\<close> returns
  NaN at zero, \<open>exp\<close> returns NaN from 88 on, and whenever the underlying NumPy call
  raises (any exception \<open>e\<close>), the primitive returns NaN instead.
\<close>

theorem primitives_never_raise:
  "(\<exists>v. add np a b = Inr v) \<and> (\<exists>v. subtract np a b = Inr v) \<and> (\<exists>v. multiply np a b = Inr v)
   \<and> (\<exists>v. divide_fs np a b = Inr v) \<and> (\<exists>v. log_fs np a = Inr v)
   \<and> (\<exists>v. take_sin np a = Inr v) \<and> (\<exists>v. take_cos np a = Inr v) \<and> (\<exists>v. exp_fs np a = Inr v)
   \<and> (\<forall>p \<in> set (FUNCTION_SET np). \<forall>args. length args = arity p \<longrightarrow> (\<exists>v. func p args = Inr v))
   \<and> (py_eq0 z \<longrightarrow> divide_fs np a z = Inr NaN)
   \<and> (py_eq0 z \<longrightarrow> log_fs np z = Inr NaN)
   \<and> (py_ge88 h \<longrightarrow> exp_fs np h = Inr NaN)
   \<and> (np_add np x y = Inl e \<longrightarrow> add np x y = Inr NaN)
   \<and> (np_subtract np x y = Inl e \<longrightarrow> subtract np x y = Inr NaN)
   \<and> (np_multiply np x y = Inl e \<longrightarrow> multiply np x y = Inr NaN)
   \<and> (np_divide np x y = Inl e \<longrightarrow> divide_fs np x y = Inr NaN)
   \<and> (np_sin np x = Inl e \<longrightarrow> take_sin np x = Inr NaN)
   \<and> (np_cos np x = Inl e \<longrightarrow> take_cos np x = Inr NaN)
   \<and> (np_exp np x = Inl e \<longrightarrow> exp_fs np x = Inr NaN)
   \<and> (np_log np x = Inl e \<longrightarrow> log_fs np x = Inr NaN)"
proof -
  have fs: "\<forall>p \<in> set (FUNCTION_SET np). \<forall>args. length args = arity p \<longrightarrow> (\<exists>v. func p args = Inr v)"
    using function_set_returns by blast
  have guards: "py_eq0 z \<longrightarrow> divide_fs np a z = Inr NaN" "py_eq0 z \<longrightarrow> log_fs np z = Inr NaN"
    "py_ge88 h \<longrightarrow> exp_fs np h = Inr NaN"
    by (simp_all add: divide_fs_def log_fs_def exp_fs_def)
  have raised: "np_add np x y = Inl e \<longrightarrow> add np x y = Inr NaN"
    "np_subtract np x y = Inl e \<longrightarrow> subtract np x y = Inr NaN"
    "np_multiply np x y = Inl e \<longrightarrow> multiply np x y = Inr NaN"
    "np_divide np x y = Inl e \<longrightarrow> divide_fs np x y = Inr NaN"
    "np_sin np x = Inl e \<longrightarrow> take_sin np x = Inr NaN"
    "np_cos np x = Inl e \<longrightarrow> take_cos np x = Inr NaN"
    "np_exp np x = Inl e \<longrightarrow> exp_fs np x = Inr NaN"
    "np_log np x = Inl e \<longrightarrow> log_fs np x = Inr NaN"
    by (simp_all add: add_def subtract_def multiply_def divide_fs_def take_sin_def take_cos_def
        exp_fs_def log_fs_def try_nan_raise)
  have returns: "\<exists>v. add np a b = Inr v" "\<exists>v. subtract np a b = Inr v"
    "\<exists>v. multiply np a b = Inr v" "\<exists>v. divide_fs np a b = Inr v" "\<exists>v. log_fs np a = Inr v"
    "\<exists>v. take_sin np a = Inr v" "\<exists>v. take_cos np a = Inr v" "\<exists>v. exp_fs np a = Inr v"
    by (rule add_returns subtract_returns multiply_returns divide_returns log_returns
        sin_returns cos_returns exp_returns)+
  show ?thesis
    by (intro conjI returns fs guards raised)
qed

theorem primitives_never_raise_witness:
  "FUNCTION_SET np_exact ! 7 \<in> set (FUNCTION_SET np_exact)
   \<and> length [Num 0] = arity (FUNCTION_SET np_exact ! 7)
   \<and> func (FUNCTION_SET np_exact ! 7) [Num 0] = Inr NaN
   \<and> py_eq0 (Num 0) \<and> divide_fs np_exact (Num 1) (Num 0) = Inr NaN
   \<and> log_fs np_exact (Num 0) = Inr NaN
   \<and> py_ge88 (Num 88) \<and> exp_fs np_exact (Num 88) = Inr NaN
   \<and> np_add np_exact PInf (Num 1) = Inl FloatingPointError \<and> add np_exact PInf (Num 1) = Inr NaN
   \<and> np_subtract np_exact PInf (Num 1) = Inl FloatingPointError
   \<and> subtract np_exact PInf (Num 1) = Inr NaN
   \<and> np_multiply np_exact PInf (Num 1) = Inl FloatingPointError
   \<and> multiply np_exact PInf (Num 1) = Inr NaN
   \<and> np_divide np_exact PInf (Num 1) = Inl FloatingPointError
   \<and> divide_fs np_exact PInf (Num 1) = Inr NaN
   \<and> np_sin np_exact PInf = Inl FloatingPointError \<and> take_sin np_exact PInf = Inr NaN
   \<and> np_cos np_exact PInf = Inl FloatingPointError \<and> take_cos np_exact PInf = Inr NaN
   \<and> np_exp np_exact PInf = Inl FloatingPointError \<and> exp_fs np_exact PInf = Inr NaN
   \<and> np_log np_exact PInf = Inl FloatingPointError \<and> log_fs np_exact PInf = Inr NaN"
proof -
  have raises: "np_add np_exact PInf (Num 1) = Inl FloatingPointError"
    "np_subtract np_exact PInf (Num 1) = Inl FloatingPointError"
    "np_multiply np_exact PInf (Num 1) = Inl FloatingPointError"
    "np_divide np_exact PInf (Num 1) = Inl FloatingPointError"
    "np_sin np_exact PInf = Inl FloatingPointError"
    "np_cos np_exact PInf = Inl FloatingPointError"
    "np_exp np_exact PInf = Inl FloatingPointError"
    "np_log np_exact PInf = Inl FloatingPointError"
    by (simp_all add: np_exact_def)
  have entry: "FUNCTION_SET np_exact ! 7 \<in> set (FUNCTION_SET np_exact)"
    "length [Num 0] = arity (FUNCTION_SET np_exact ! 7)"
    "func (FUNCTION_SET np_exact ! 7) [Num 0] = Inr NaN"
    by (simp_all add: FUNCTION_SET_def lambda1_def log_fs_def)
  have g: "py_eq0 (Num 0)" "py_ge88 (Num 88)" by simp_all
  from primitives_never_raise [of np_exact "Num 1" "Num 0" "Num 0" "Num 88" PInf "Num 1"
      FloatingPointError] raises entry g
  show ?thesis by simp
qed

lemma q2l: "quiet_nan2 f \<Longrightarrow> try_nan (f NaN x) = Inr NaN"
  by (rule try_nan_quiet) (simp add: quiet_nan2_def)
lemma q2r: "quiet_nan2 f \<Longrightarrow> try_nan (f x NaN) = Inr NaN"
  by (rule try_nan_quiet) (simp add: quiet_nan2_def)
lemma q1: "quiet_nan1 f \<Longrightarrow> try_nan (f NaN) = Inr NaN"
  by (rule try_nan_quiet) (simp add: quiet_nan1_def)

lemma nan_binary:
  assumes "ieee_nan np" "a = NaN \<or> b = NaN"
  shows "add np a b = Inr NaN" "subtract np a b = Inr NaN" "multiply np a b = Inr NaN"
    "divide_fs np a b = Inr NaN"
  using assms by (auto simp: ieee_nan_def add_def subtract_def multiply_def divide_fs_def q2l q2r)

lemma nan_unary:
  assumes "ieee_nan np"
  shows "take_sin np NaN = Inr NaN" "take_cos np NaN = Inr NaN" "exp_fs np NaN = Inr NaN"
    "log_fs np (np_abs NaN) = Inr NaN"
  using assms by (auto simp: ieee_nan_def take_sin_def take_cos_def exp_fs_def log_fs_def q1)

text \<open>
  Claim C5. Propagation law: for every entry of \<open>FUNCTION_SET\<close> and every argument list of
  the entry's arity that holds a NaN, the result is NaN. NumPy's own treatment of a quiet
  NaN (\<open>ieee_nan\<close>) is the hypothesis; the guards and the exception handlers of the
  primitives are what the theorem checks.
\<close>

theorem nan_propagation:
  assumes "ieee_nan np" "p \<in> set (FUNCTION_SET np)" "length args = arity p" "NaN \<in> set args"
  shows "func p args = Inr NaN"
proof -
  from assms(2) consider
      "func p = lambda2 (\<lambda>a b. add np a b)" "arity p = 2"
    | "func p = lambda2 (\<lambda>a b. subtract np a b)" "arity p = 2"
    | "func p = lambda2 (\<lambda>a b. multiply np a b)" "arity p = 2"
    | "func p = lambda2 (\<lambda>a b. divide_fs np a b)" "arity p = 2"
    | "func p = lambda1 (\<lambda>a. take_sin np a)" "arity p = 1"
    | "func p = lambda1 (\<lambda>a. take_cos np a)" "arity p = 1"
    | "func p = lambda1 (\<lambda>a. exp_fs np a)" "arity p = 1"
    | "func p = lambda1 (\<lambda>a. log_fs np (np_abs a))" "arity p = 1"
    by (auto simp: FUNCTION_SET_def)
  then show ?thesis
  proof cases
    case 1 with assms(3,4) len2 [of args] nan_binary [OF assms(1)] show ?thesis by (auto simp: lambda2_two)
  next
    case 2 with assms(3,4) len2 [of args] nan_binary [OF assms(1)] show ?thesis by (auto simp: lambda2_two)
  next
    case 3 with assms(3,4) len2 [of args] nan_binary [OF assms(1)] show ?thesis by (auto simp: lambda2_two)
  next
    case 4 with assms(3,4) len2 [of args] nan_binary [OF assms(1)] show ?thesis by (auto simp: lambda2_two)
  next
    case 5 with assms(3,4) len1 [of args] nan_unary [OF assms(1)] show ?thesis by (auto simp: lambda1_one)
  next
    case 6 with assms(3,4) len1 [of args] nan_unary [OF assms(1)] show ?thesis by (auto simp: lambda1_one)
  next
    case 7 with assms(3,4) len1 [of args] nan_unary [OF assms(1)] show ?thesis by (auto simp: lambda1_one)
  next
    case 8 with assms(3,4) len1 [of args] nan_unary [OF assms(1)] show ?thesis by (auto simp: lambda1_one)
  qed
qed

theorem nan_propagation_witness:
  "ieee_nan np_exact \<and> FUNCTION_SET np_exact ! 3 \<in> set (FUNCTION_SET np_exact)
   \<and> length [Num 1, NaN] = arity (FUNCTION_SET np_exact ! 3) \<and> NaN \<in> set [Num 1, NaN]
   \<and> name (FUNCTION_SET np_exact ! 3) = ''/''
   \<and> func (FUNCTION_SET np_exact ! 3) [Num 1, NaN] = Inr NaN"
proof -
  have m: "FUNCTION_SET np_exact ! 3 \<in> set (FUNCTION_SET np_exact)"
    by (simp add: FUNCTION_SET_def)
  have l: "length [Num 1, NaN] = arity (FUNCTION_SET np_exact ! 3)"
    by (simp add: FUNCTION_SET_def)
  have n: "NaN \<in> set [Num 1, NaN]" by simp
  have nm: "name (FUNCTION_SET np_exact ! 3) = ''/''" by (simp add: FUNCTION_SET_def)
  from nan_propagation [OF ieee_nan_exact m l n] ieee_nan_exact m l n nm show ?thesis by blast
qed

section \<open>Properties of the driver\<close>

subsection \<open>Sequencing, comprehensions and the child loops\<close>

lemma and_then_Inl [simp]: "and_then (Inl e) f = Inl e"
  by (simp add: and_then_def)

lemma and_then_Inr [simp]: "and_then (Inr x) f = f x"
  by (simp add: and_then_def)

lemma and_then_eq_Inr: "and_then m f = Inr y \<longleftrightarrow> (\<exists>x. m = Inr x \<and> f x = Inr y)"
  by (cases m) simp_all

lemma py_get_eq_Inr: "py_get xs i = Inr x \<longleftrightarrow> i < length xs \<and> x = xs ! i"
  by (auto simp: py_get_def)

lemma collect_length: "collect f js = Inr xs \<Longrightarrow> length xs = length js"
  by (induction js arbitrary: xs) (auto simp: and_then_eq_Inr)

lemma collect_nth:
  "collect f js = Inr xs \<Longrightarrow> n < length js \<Longrightarrow> f (js ! n) = Inr (xs ! n)"
proof (induction js arbitrary: xs n)
  case Nil
  then show ?case by simp
next
  case (Cons i js)
  then show ?case by (cases n) (auto simp: and_then_eq_Inr)
qed

lemma collect_total:
  "(\<And>i. i \<in> set js \<Longrightarrow> \<exists>x. f i = Inr x) \<Longrightarrow> \<exists>xs. collect f js = Inr xs"
proof (induction js)
  case Nil
  then show ?case by simp
next
  case (Cons i js)
  then obtain x xs where "f i = Inr x" "collect f js = Inr xs"
    by (meson list.set_intros)
  then show ?case by simp
qed

lemma collect_parents:
  assumes "collect (\<lambda>i. py_get pop (k + i)) [0..<n] = Inr parents"
  shows "parents = take n (drop k pop)" and "k + n \<le> length pop \<or> n = 0"
proof -
  have len: "length parents = n"
    using collect_length [OF assms] by simp
  have nth: "i < n \<Longrightarrow> k + i < length pop \<and> parents ! i = pop ! (k + i)" for i
    using collect_nth [OF assms, of i] by (simp add: py_get_eq_Inr)
  show b: "k + n \<le> length pop \<or> n = 0"
  proof (cases n)
    case 0
    then show ?thesis by simp
  next
    case (Suc m)
    with nth [of m] show ?thesis by simp
  qed
  show "parents = take n (drop k pop)"
  proof (rule nth_equalityI)
    show "length parents = length (take n (drop k pop))"
      using len b by auto
  next
    fix i assume "i < length parents"
    with len nth [of i] show "parents ! i = take n (drop k pop) ! i"
      by simp
  qed
qed

lemma for_children_length:
  "for_children body js (cl, r) = Inr (cl', r') \<Longrightarrow> length cl' = length cl"
proof (induction js arbitrary: cl r)
  case Nil
  then show ?case by simp
next
  case (Cons i js)
  then show ?case
    by (fastforce simp: and_then_eq_Inr)
qed

lemma for_children_invariant:
  assumes "for_children body js (cl, r) = Inr (cl', r')"
    and "\<And>c r c' r'. body c r = Inr (c', r') \<Longrightarrow> P c'"
    and "\<forall>i \<in> Q. i < length cl \<and> P (cl ! i)"
  shows "\<forall>i \<in> Q \<union> set js. i < length cl' \<and> P (cl' ! i)"
  using assms(1,3)
proof (induction js arbitrary: cl r Q)
  case Nil
  then show ?case by simp
next
  case (Cons i js)
  from Cons.prems(1) obtain c' r1 where i: "i < length cl"
    and b: "body (cl ! i) r = Inr (c', r1)"
    and rest: "for_children body js (cl[i := c'], r1) = Inr (cl', r')"
    by (auto simp: and_then_eq_Inr py_get_eq_Inr)
  have P: "P c'" using assms(2) b by blast
  have "\<forall>j \<in> insert i Q. j < length (cl[i := c']) \<and> P (cl[i := c'] ! j)"
    using Cons.prems(2) i P by (auto simp: nth_list_update)
  from Cons.IH [OF rest this] show ?case by simp
qed

lemma for_children_all:
  assumes "for_children body [0..<n] (cl, r) = Inr (cl', r')"
    and "\<And>c r c' r'. body c r = Inr (c', r') \<Longrightarrow> P c'"
    and "i < n"
  shows "i < length cl' \<and> P (cl' ! i)"
  using for_children_invariant [OF assms(1), of P "{}"] assms(2,3) by auto

lemma replace_with_children_frame:
  "replace_with_children base cl js pop = Inr pop' \<Longrightarrow>
     length pop' = length pop \<and> (\<forall>j. j \<notin> (\<lambda>i. base + i) ` set js \<longrightarrow> pop' ! j = pop ! j)"
proof (induction js arbitrary: pop)
  case Nil
  then show ?case by simp
next
  case (Cons i js)
  from Cons.prems obtain rest: "replace_with_children base cl js (pop[base + i := cl ! i]) = Inr pop'"
    by (auto simp: and_then_eq_Inr py_get_eq_Inr split: if_splits)
  from Cons.IH [OF rest] show ?case by (auto simp: nth_list_update)
qed

lemma replace_with_children_written:
  "replace_with_children base cl js pop = Inr pop' \<Longrightarrow> distinct js \<Longrightarrow> i \<in> set js \<Longrightarrow>
     base + i < length pop' \<and> pop' ! (base + i) = cl ! i"
proof (induction js arbitrary: pop)
  case Nil
  then show ?case by simp
next
  case (Cons a js)
  from Cons.prems(1) obtain rest: "replace_with_children base cl js (pop[base + a := cl ! a]) = Inr pop'"
    and a: "base + a < length pop"
    by (auto simp: and_then_eq_Inr py_get_eq_Inr split: if_splits)
  show ?case
  proof (cases "i = a")
    case True
    with Cons.prems(2) have "base + a \<notin> (\<lambda>i. base + i) ` set js" by auto
    with replace_with_children_frame [OF rest] a True show ?thesis by simp
  next
    case False
    with Cons.prems Cons.IH [OF rest] show ?thesis by simp
  qed
qed

subsection \<open>The branches of a parent group\<close>

lemma pair_group_cases:
  assumes run: "pair_group C L k (pop, r) = Inr (pop', r')"
  obtains (same) parents bl r1 max_rmp
    where "parents = take (min (lc_N L - k) (lc_no_par L)) (drop k pop)"
      and "set_beta C L (min (lc_N L - k) (lc_no_par L)) parents r = Inr (bl, r1)"
      and "max_rmp_of L parents (min (lc_N L - k) (lc_no_par L)) = Inr max_rmp"
      and "same_sf parents (min (lc_N L - k) (lc_no_par L))"
      and "pop' = pop"
  | (cross) parents bl r1 max_rmp s3 cl'
    where "parents = take (min (lc_N L - k) (lc_no_par L)) (drop k pop)"
      and "set_beta C L (min (lc_N L - k) (lc_no_par L)) parents r = Inr (bl, r1)"
      and "max_rmp_of L parents (min (lc_N L - k) (lc_no_par L)) = Inr max_rmp"
      and "\<not> same_sf parents (min (lc_N L - k) (lc_no_par L))"
      and "fst (random_rand C r1) < max_rmp"
      and "for_children (cross_task_child C pop (lc_mr L) parents)
             [0..<min (lc_N L - k) (lc_no_par L)] s3 = Inr (cl', r')"
      and "replace_with_children (lc_N L + k) cl' [0..<min (lc_N L - k) (lc_no_par L)] pop
             = Inr pop'"
  | (relatives) parents bl r1 max_rmp parents' s4 cl'
    where "parents = take (min (lc_N L - k) (lc_no_par L)) (drop k pop)"
      and "set_beta C L (min (lc_N L - k) (lc_no_par L)) parents r = Inr (bl, r1)"
      and "max_rmp_of L parents (min (lc_N L - k) (lc_no_par L)) = Inr max_rmp"
      and "\<not> same_sf parents (min (lc_N L - k) (lc_no_par L))"
      and "\<not> fst (random_rand C r1) < max_rmp"
      and "for_children (same_task_child C pop (lc_mr L) None parents')
             [0..<min (lc_N L - k) (lc_no_par L)] s4 = Inr (cl', r')"
      and "replace_with_children (lc_N L + k) cl' [0..<min (lc_N L - k) (lc_no_par L)] pop
             = Inr pop'"
proof -
  define no_p where "no_p = min (lc_N L - k) (lc_no_par L)"
  from run obtain parents bl r1 max_rmp
    where ps: "collect (\<lambda>i. py_get pop (k + i)) [0..<no_p] = Inr parents"
      and sb: "set_beta C L no_p parents r = Inr (bl, r1)"
      and mx: "max_rmp_of L parents no_p = Inr max_rmp"
      and rest: "(if same_sf parents no_p then
        (case crossover_mul C pop parents bl r1 of (cl, r2) \<Rightarrow>
         and_then (for_children (same_task_child C pop (lc_mr L) (Some (lc_pmdi L)) parents)
                     [0..<no_p] (cl, r2))
           (\<lambda>(cl', r3). Inr (pop, r3)))
      else
        (case random_rand C r1 of (u, r2) \<Rightarrow>
         if u < max_rmp then
           (case crossover_mul_second C pop parents bl (lc_rmp_matrix L) r2 of (cl, r3) \<Rightarrow>
            and_then (for_children (cross_task_child C pop (lc_mr L) parents) [0..<no_p] (cl, r3))
              (\<lambda>(cl', r4).
            and_then (replace_with_children (lc_N L + k) cl' [0..<no_p] pop)
              (\<lambda>pop'. Inr (pop', r4))))
         else
           (case find_relatives C pop [1..<no_p] (parents, r2) of (parents', r3) \<Rightarrow>
            (case crossover_mul C pop parents' bl r3 of (cl, r4) \<Rightarrow>
             and_then (for_children (same_task_child C pop (lc_mr L) None parents')
                         [0..<no_p] (cl, r4))
               (\<lambda>(cl', r5).
             and_then (replace_with_children (lc_N L + k) cl' [0..<no_p] pop)
               (\<lambda>pop'. Inr (pop', r5))))))) = Inr (pop', r')"
    unfolding pair_group_def no_p_def [symmetric] Let_def
    by (auto simp: and_then_eq_Inr)
  have pe: "parents = take no_p (drop k pop)"
    using collect_parents(1) [OF ps] .
  obtain u r2 where rr: "random_rand C r1 = (u, r2)"
    by (cases "random_rand C r1")
  show thesis
  proof (cases "same_sf parents no_p")
    case True
    with rest have "pop' = pop"
      by (auto simp: and_then_eq_Inr split: prod.splits)
    with same pe sb mx True show thesis
      unfolding no_p_def by blast
  next
    case ns: False
    show thesis
    proof (cases "u < max_rmp")
      case True
      obtain cl r3 where cs: "crossover_mul_second C pop parents bl (lc_rmp_matrix L) r2 = (cl, r3)"
        by (cases "crossover_mul_second C pop parents bl (lc_rmp_matrix L) r2")
      from ns True rest rr cs obtain cl' where
        "for_children (cross_task_child C pop (lc_mr L) parents) [0..<no_p] (cl, r3) = Inr (cl', r')"
        "replace_with_children (lc_N L + k) cl' [0..<no_p] pop = Inr pop'"
        by (auto simp: and_then_eq_Inr)
      with pe sb mx ns True rr show thesis
        unfolding no_p_def by (intro cross [of parents bl r1 max_rmp "(cl, r3)" cl']) simp_all
    next
      case False
      obtain parents' r3 where fr: "find_relatives C pop [1..<no_p] (parents, r2) = (parents', r3)"
        by (cases "find_relatives C pop [1..<no_p] (parents, r2)")
      obtain cl r4 where cs: "crossover_mul C pop parents' bl r3 = (cl, r4)"
        by (cases "crossover_mul C pop parents' bl r3")
      from ns False rest rr fr cs obtain cl' where
        "for_children (same_task_child C pop (lc_mr L) None parents') [0..<no_p] (cl, r4) = Inr (cl', r')"
        "replace_with_children (lc_N L + k) cl' [0..<no_p] pop = Inr pop'"
        by (auto simp: and_then_eq_Inr)
      with pe sb mx ns False rr show thesis
        unfolding no_p_def
        by (intro relatives [of parents bl r1 max_rmp parents' "(cl, r4)" cl']) simp_all
    qed
  qed
qed

lemma replaced_range:
  assumes "replace_with_children base cl [0..<n] pop = Inr pop'"
  shows "length pop' = length pop"
    and "pop' ! j \<noteq> pop ! j \<Longrightarrow> base \<le> j \<and> j < base + n"
proof -
  note fr = replace_with_children_frame [OF assms]
  from fr show "length pop' = length pop" by simp
  assume "pop' ! j \<noteq> pop ! j"
  with fr have "j \<in> (\<lambda>i. base + i) ` set [0..<n]" by blast
  then obtain i where "i \<in> set [0..<n]" "j = base + i" by blast
  then show "base \<le> j \<and> j < base + n" by simp
qed

lemma pair_group_frame:
  assumes "pair_group C L k (pop, r) = Inr (pop', r')"
  shows "length pop' = length pop"
    and "pop' ! j \<noteq> pop ! j \<Longrightarrow>
           lc_N L + k \<le> j \<and> j < lc_N L + k + min (lc_N L - k) (lc_no_par L)"
proof -
  have "length pop' = length pop \<and> (pop' ! j \<noteq> pop ! j \<longrightarrow>
           lc_N L + k \<le> j \<and> j < lc_N L + k + min (lc_N L - k) (lc_no_par L))"
    using assms
  proof (cases rule: pair_group_cases)
    case same
    then show ?thesis by simp
  next
    case (cross parents bl r1 max_rmp s3 cl')
    from replaced_range [OF cross(7)] show ?thesis by blast
  next
    case (relatives parents bl r1 max_rmp parents' s4 cl')
    from replaced_range [OF relatives(7)] show ?thesis by blast
  qed
  then show "length pop' = length pop"
    and "pop' ! j \<noteq> pop ! j \<Longrightarrow>
           lc_N L + k \<le> j \<and> j < lc_N L + k + min (lc_N L - k) (lc_no_par L)"
    by simp_all
qed

lemma pairing_from_frame:
  "pairing_from C L k s = Inr s' \<Longrightarrow>
     length (fst s') = length (fst s)
     \<and> (\<forall>j. fst s' ! j \<noteq> fst s ! j \<longrightarrow> lc_N L + k \<le> j \<and> j < 2 * lc_N L)"
proof (induction C L k s rule: pairing_from.induct)
  case (1 C L k s)
  show ?case
  proof (cases "k < lc_N L \<and> 0 < lc_no_par L")
    case False
    with "1.prems" show ?thesis by simp
  next
    case True
    with "1.prems" obtain s1 where g: "pair_group C L k s = Inr s1"
      and rest: "pairing_from C L (k + lc_no_par L) s1 = Inr s'"
      by (auto simp: and_then_eq_Inr)
    from "1.IH" [OF True rest]
    have ih: "length (fst s') = length (fst s1)"
      "\<And>j. fst s' ! j \<noteq> fst s1 ! j \<Longrightarrow> lc_N L + (k + lc_no_par L) \<le> j \<and> j < 2 * lc_N L"
      by simp_all
    obtain pop r pop1 r1 where s: "s = (pop, r)" and s1: "s1 = (pop1, r1)"
      by (cases s, cases s1) auto
    note fr = pair_group_frame [OF g [unfolded s s1]]
    show ?thesis
    proof (intro conjI allI impI)
      show "length (fst s') = length (fst s)"
        using ih(1) fr(1) s s1 by simp
    next
      fix j assume neq: "fst s' ! j \<noteq> fst s ! j"
      show "lc_N L + k \<le> j"
      proof (cases "fst s' ! j = fst s1 ! j")
        case True
        with neq s s1 have "pop1 ! j \<noteq> pop ! j" by simp
        from fr(2) [OF this] show ?thesis by simp
      next
        case False
        from ih(2) [OF this] show ?thesis by simp
      qed
    next
      fix j assume neq: "fst s' ! j \<noteq> fst s ! j"
      show "j < 2 * lc_N L"
      proof (cases "fst s' ! j = fst s1 ! j")
        case eq: True
        with neq s s1 have "pop1 ! j \<noteq> pop ! j" by simp
        from fr(2) [OF this] True show ?thesis by arith
      next
        case False
        from ih(2) [OF this] show ?thesis by simp
      qed
    qed
  qed
qed

lemma cross_task_child_sf:
  assumes "cross_task_child C pop mr parents c g = Inr (c', g')"
  shows "parents \<noteq> []"
    and "sf c' = map sf parents
           ! (fst (randint C (length parents) (snd (mutate C pop c mr None g))) mod length parents)"
    and "sf c' \<in> set (map sf parents)"
proof -
  obtain c1 g1 where m: "mutate C pop c mr None g = (c1, g1)"
    by (cases "mutate C pop c mr None g")
  obtain u g2 where d: "randint C (length parents) g1 = (u, g2)"
    by (cases "randint C (length parents) g1")
  from assms m d show ne: "parents \<noteq> []"
    by (auto simp: cross_task_child_def random_choice_def and_then_eq_Inr split: if_splits)
  from assms m d ne
  show eq: "sf c' = map sf parents
           ! (fst (randint C (length parents) (snd (mutate C pop c mr None g))) mod length parents)"
    by (auto simp: cross_task_child_def random_choice_def and_then_eq_Inr)
  have "fst (randint C (length parents) (snd (mutate C pop c mr None g))) mod length parents
          < length (map sf parents)"
    using ne by simp
  with eq show "sf c' \<in> set (map sf parents)"
    using nth_mem by metis
qed

lemma same_sf_keeps_population:
  assumes "pair_group C L k (pop, r) = Inr (pop', r')"
    and "same_sf (take (min (lc_N L - k) (lc_no_par L)) (drop k pop)) (min (lc_N L - k) (lc_no_par L))"
  shows "pop' = pop"
  using assms(1)
proof (cases rule: pair_group_cases)
  case same
  then show ?thesis by simp
next
  case (cross parents bl r1 max_rmp s3 cl')
  with assms(2) show ?thesis by simp
next
  case (relatives parents bl r1 max_rmp parents' s4 cl')
  with assms(2) show ?thesis by simp
qed

lemma single_parent_raises:
  assumes "min (lc_N L - k) (lc_no_par L) = 1"
  shows "\<exists>e. pair_group C L k s = Inl e"
proof -
  obtain pop r where s: "s = (pop, r)" by (cases s)
  have mx: "max_rmp_of L parents 1 = Inl ValueError" for parents
    by (simp add: max_rmp_of_def)
  show ?thesis
  proof (cases "collect (\<lambda>i. py_get pop (k + i)) [0..<1]")
    case (Inl e)
    then show ?thesis by (simp add: pair_group_def s assms)
  next
    case (Inr parents)
    show ?thesis
    proof (cases "set_beta C L 1 parents r")
      case (Inl e)
      with Inr show ?thesis by (simp add: pair_group_def s assms)
    next
      case sb: (Inr x)
      with Inr mx show ?thesis
        by (cases x) (simp add: pair_group_def s assms)
    qed
  qed
qed

subsection \<open>Running the driver on the concrete inputs\<close>

lemma ref_ops_simps:
  "Slgep_pop (ref_ops K) a1 a2 a3 a4 a5 a6 no_pop no_task r = (initial_pop no_pop no_task, r)"
  "evaluate (ref_ops K) envs pop r = (pop, r)"
  "sort_pop (ref_ops K) pop = pop"
  "permute (ref_ops K) pop r = (pop, r)"
  "get_subpops (ref_ops K) pop = map (\<lambda>t. filter (\<lambda>c. sf c = t) pop) [0..<K]"
  "learn_rmp (ref_ops K) pop subpops r = (replicate K (replicate K 1), r)"
  "crossover_mul (ref_ops K) pop parents bl r = (map halve parents, r)"
  "crossover_mul_second (ref_ops K) pop parents bl m r = (map halve parents, r)"
  "mutate (ref_ops K) pop ch mr pmdi r = (bump ch, r)"
  "find_relative (ref_ops K) pop s r = (first_of_task pop s, r)"
  "get_optimization_results (ref_ops K) pop t msg = (t, msg)"
  "random_normal (ref_ops K) loc scale n d r = (replicate n (replicate d loc), r)"
  "random_rand (ref_ops K) r = (1 / 2, Suc r)"
  "randint (ref_ops K) n r = (r, Suc r)"
  "round1 (ref_ops K) x = x"
  "np_mean (ref_ops K) = axis0 exact_mean"
  "np_std (ref_ops K) = axis0 exact_std"
  "norm_pdf (ref_ops K) = exact_pdf"
  by (simp_all add: ref_ops_def)

lemmas group_eval = pair_group_def set_beta_def max_rmp_of_def same_sf_def np_index2_def
  py_get_def same_task_child_def cross_task_child_def random_choice_def ref_ops_simps
  ex_locals_def upt_rec [of _ "numeral _"] upt_rec [of _ "Suc _"] upt_rec [of _ "1"]

lemma ex_same: "pair_group (ref_ops 2) (ex_locals 2 2) 0 ([ex_A, ex_B, ex_C, ex_C], 0)
    = Inr ([ex_A, ex_B, ex_C, ex_C], 0)"
  by (simp add: group_eval ex_A_def ex_B_def)

lemma ex_same_children:
  "for_children (same_task_child (ref_ops 2) [ex_A, ex_B, ex_C, ex_C] (PFloat (1 / 10))
       (Some (PInt 5)) [ex_A, ex_B]) [0..<2] (map halve [ex_A, ex_B], 0)
     = Inr ([\<lparr>gene = [2, 3], sf = 0, chrom_D = 2\<rparr>, \<lparr>gene = [4, 5], sf = 0, chrom_D = 2\<rparr>], 0)"
  by (simp add: group_eval ex_A_def ex_B_def halve_def bump_def)

lemma ex_cross: "pair_group (ref_ops 2) (ex_locals 2 2) 0 ([ex_A, ex_C, ex_B, ex_B], 0)
    = Inr ([ex_A, ex_C, \<lparr>gene = [2, 3], sf = 1, chrom_D = 2\<rparr>,
             \<lparr>gene = [3 / 2, 5 / 2], sf = 0, chrom_D = 2\<rparr>], 3)"
  by (simp add: group_eval ex_A_def ex_C_def halve_def bump_def)

lemma ex_cross_loop: "pairing_from (ref_ops 2) (ex_locals 2 2) 0 ([ex_A, ex_C, ex_B, ex_B], 0)
    = Inr ([ex_A, ex_C, \<lparr>gene = [2, 3], sf = 1, chrom_D = 2\<rparr>,
             \<lparr>gene = [3 / 2, 5 / 2], sf = 0, chrom_D = 2\<rparr>], 3)"
  using ex_cross by (simp add: ex_locals_def)

lemma ex_cross_parts:
  "set_beta (ref_ops 2) (ex_locals 2 2) 2 [ex_A, ex_C] 0 = Inr ([[7 / 10, 7 / 10], [7 / 10, 7 / 10]], 0)"
  "max_rmp_of (ex_locals 2 2) [ex_A, ex_C] 2 = Inr 1"
  "\<not> same_sf [ex_A, ex_C] 2"
  "fst (random_rand (ref_ops 2) (0::nat)) < 1"
  by (simp_all add: group_eval ex_A_def ex_C_def eval_nat_numeral)

lemma ex_single:
  "pair_group (ref_ops 2) (ex_locals 4 3) 3
     ([ex_A, ex_C, ex_B, ex_C, ex_B, ex_B, ex_B, ex_B], 0) = Inl ValueError"
  by (simp add: group_eval)

lemma ex_single_loop:
  "pairing_from (ref_ops 2) (ex_locals 4 3) 0
     ([ex_A, ex_C, ex_B, ex_C, ex_B, ex_B, ex_B, ex_B], 0) = Inl ValueError"
  by (simp add: group_eval ex_A_def ex_B_def ex_C_def halve_def bump_def)

lemma ex_columns:
  "np_mean (ref_ops 1) (map gene [ex_P, ex_Q]) = Inr [1, 1]"
  "np_std (ref_ops 1) (map gene [ex_P, ex_Q]) = Inr [0, 1]"
  "norm_pdf (ref_ops 1) 0 1 1 = Inr (exp (- (1 / 2)) / sqrt (2 * pi))"
  by (simp_all add: ref_ops_simps axis0_def column_def exact_std_def exact_mean_def exact_pdf_def
      ex_P_def ex_Q_def upt_rec [of _ "numeral _"] upt_rec [of _ "Suc _"])

subsection \<open>Write-back of the children\<close>

text \<open>
  Claim C1 says that every branch writes the \<open>no_p\<close> children into the offspring slots.
  The branch of one shared skill factor does not: for the parents \<open>ex_A\<close> and \<open>ex_B\<close> of
  task 0, with \<open>N = 2\<close> and groups of two, the group returns the population as it was,
  although the child loop has produced the two mutated children of task 0.
\<close>

theorem same_task_children_not_written:
  "pair_group (ref_ops 2) (ex_locals 2 2) 0 ([ex_A, ex_B, ex_C, ex_C], 0)
     = Inr ([ex_A, ex_B, ex_C, ex_C], 0)
   \<and> for_children (same_task_child (ref_ops 2) [ex_A, ex_B, ex_C, ex_C] (PFloat (1 / 10))
        (Some (PInt 5)) [ex_A, ex_B]) [0..<2] (map halve [ex_A, ex_B], 0)
     = Inr ([\<lparr>gene = [2, 3], sf = 0, chrom_D = 2\<rparr>, \<lparr>gene = [4, 5], sf = 0, chrom_D = 2\<rparr>], 0)"
  using ex_same ex_same_children by simp

text \<open>
  Claim C2 says that a partial last group completes a round, also with one parent. With
  \<open>N = 4\<close> and groups of three, the last group starts at \<open>k = 3\<close> and has one parent: the
  maximum over the empty list of RMP values is \<open>ValueError\<close>, for the group and so for the
  loop of the generation.
\<close>

theorem single_parent_group_raises:
  "pair_group (ref_ops 2) (ex_locals 4 3) 3
     ([ex_A, ex_C, ex_B, ex_C, ex_B, ex_B, ex_B, ex_B], 0) = Inl ValueError
   \<and> pairing_from (ref_ops 2) (ex_locals 4 3) 0
     ([ex_A, ex_C, ex_B, ex_C, ex_B, ex_B, ex_B, ex_B], 0) = Inl ValueError"
  using ex_single ex_single_loop by simp

subsection \<open>Skill factors of cross-task children\<close>

text \<open>
  Claim C6. When a group succeeds through the cross-task branch (the parents do not share
  one skill factor and the uniform draw is below the maximum RMP), the child written to
  offspring slot \<open>N + k + i\<close> has a skill factor of one of the parents, for every
  \<open>i < no_p\<close>; and the skill factor that the loop body gives a child is the entry of the
  parents' skill factors at the index that the generator draws for that child.
\<close>

theorem cross_task_children_sf:
  assumes "pair_group C L k (pop, r) = Inr (pop', r')"
    and "no_p = min (lc_N L - k) (lc_no_par L)"
    and "parents = take no_p (drop k pop)"
    and "set_beta C L no_p parents r = Inr (bl, r1)"
    and "max_rmp_of L parents no_p = Inr max_rmp"
    and "\<not> same_sf parents no_p"
    and "fst (random_rand C r1) < max_rmp"
    and "i < no_p"
  shows "sf (pop' ! (lc_N L + k + i)) \<in> set (map sf parents)
    \<and> (\<forall>c g c' g'. cross_task_child C pop (lc_mr L) parents c g = Inr (c', g') \<longrightarrow>
          sf c' = map sf parents
            ! (fst (randint C (length parents) (snd (mutate C pop c (lc_mr L) None g)))
                 mod length parents))"
proof
  show "\<forall>c g c' g'. cross_task_child C pop (lc_mr L) parents c g = Inr (c', g') \<longrightarrow>
          sf c' = map sf parents
            ! (fst (randint C (length parents) (snd (mutate C pop c (lc_mr L) None g)))
                 mod length parents)"
    by (intro allI impI) (rule cross_task_child_sf(2))
  from assms(1) show "sf (pop' ! (lc_N L + k + i)) \<in> set (map sf parents)"
  proof (cases rule: pair_group_cases)
    case same
    with assms show ?thesis by simp
  next
    case (relatives ps bl' r1' max_rmp' parents' s4 cl')
    with assms show ?thesis by simp
  next
    case (cross ps bl' r1' max_rmp' s3 cl')
    from cross(1) assms(2,3) have ps: "ps = parents" by simp
    obtain cl r3 where s3: "s3 = (cl, r3)" by (cases s3)
    have loop: "for_children (cross_task_child C pop (lc_mr L) parents) [0..<no_p] (cl, r3)
                  = Inr (cl', r')"
      using cross(6) assms(2) ps s3 by simp
    have child: "i < length cl' \<and> sf (cl' ! i) \<in> set (map sf parents)"
      by (rule for_children_all [OF loop _ assms(8)]) (rule cross_task_child_sf(3))
    have "pop' ! (lc_N L + k + i) = cl' ! i"
      using replace_with_children_written [OF cross(7), of i] assms(2,8) by simp
    with child show ?thesis by simp
  qed
qed

theorem cross_task_children_sf_witness:
  "pair_group (ref_ops 2) (ex_locals 2 2) 0 ([ex_A, ex_C, ex_B, ex_B], 0)
     = Inr ([ex_A, ex_C, \<lparr>gene = [2, 3], sf = 1, chrom_D = 2\<rparr>,
              \<lparr>gene = [3 / 2, 5 / 2], sf = 0, chrom_D = 2\<rparr>], 3)
   \<and> 2 = min (lc_N (ex_locals 2 2) - 0) (lc_no_par (ex_locals 2 2))
   \<and> [ex_A, ex_C] = take 2 (drop 0 [ex_A, ex_C, ex_B, ex_B])
   \<and> set_beta (ref_ops 2) (ex_locals 2 2) 2 [ex_A, ex_C] 0
        = Inr ([[7 / 10, 7 / 10], [7 / 10, 7 / 10]], 0)
   \<and> max_rmp_of (ex_locals 2 2) [ex_A, ex_C] 2 = Inr 1
   \<and> \<not> same_sf [ex_A, ex_C] 2
   \<and> fst (random_rand (ref_ops 2) (0::nat)) < 1
   \<and> (1::nat) < 2
   \<and> sf ([ex_A, ex_C, \<lparr>gene = [2, 3], sf = 1, chrom_D = 2\<rparr>,
            \<lparr>gene = [3 / 2, 5 / 2], sf = 0, chrom_D = 2\<rparr>] ! (lc_N (ex_locals 2 2) + 0 + 1))
        \<in> set (map sf [ex_A, ex_C])"
proof -
  have n: "2 = min (lc_N (ex_locals 2 2) - 0) (lc_no_par (ex_locals 2 2))"
    by (simp add: ex_locals_def)
  have p: "[ex_A, ex_C] = take 2 (drop 0 [ex_A, ex_C, ex_B, ex_B])"
    by simp
  have i: "(1::nat) < 2" by simp
  from cross_task_children_sf [OF ex_cross n p ex_cross_parts i] ex_cross n p ex_cross_parts i
  show ?thesis by blast
qed

subsection \<open>Likelihood-weighted blend coefficients\<close>

lemma beta_cell_returns:
  assumes "j < length std"
    and "std ! j \<noteq> 0 \<Longrightarrow>
           j < length g \<and> j < length mean \<and> norm_pdf C (g ! j) (mean ! j) (std ! j) = Inr d"
  shows "beta_cell C g mean std j = Inr (if std ! j = 0 then 1 else d)"
  using assms by (auto simp: beta_cell_def py_get_def)

lemma beta_cell_scale:
  assumes "\<forall>x m s. s \<noteq> 0 \<longrightarrow> f x m s = norm_pdf C x m s"
  shows "beta_cell (C\<lparr>norm_pdf := f\<rparr>) g mean std j = beta_cell C g mean std j"
  using assms by (simp add: beta_cell_def and_then_def split: sum.splits)

lemma set_beta_scale:
  assumes "\<forall>x m s. s \<noteq> 0 \<longrightarrow> f x m s = norm_pdf C x m s"
  shows "set_beta (C\<lparr>norm_pdf := f\<rparr>) L no_p parents r = set_beta C L no_p parents r"
proof -
  have "beta_cell (C\<lparr>norm_pdf := f\<rparr>) = beta_cell C"
    by (intro ext) (rule beta_cell_scale [OF assms])
  then have "beta_row (C\<lparr>norm_pdf := f\<rparr>) = beta_row C"
    by (intro ext) (simp add: beta_row_def)
  then show ?thesis
    by (simp add: set_beta_def)
qed

lemma collect_map:
  "(\<And>i. i \<in> set js \<Longrightarrow> f i = Inr (g i)) \<Longrightarrow> collect f js = Inr (map g js)"
  by (induction js) simp_all

text \<open>
  Claim C7. In the likelihood-weighted mode, let \<open>mean i\<close> and \<open>std i\<close> be what \<open>np.mean\<close>
  and \<open>np.std\<close> return for the subpopulation of parent \<open>i\<close>, and let \<open>norm.pdf\<close> return on
  the positions of nonzero standard deviation. Then the blend coefficients are computed
  without exception; \<open>bl[i][j]\<close> is 1 where \<open>std[j]\<close> is exactly 0, and what \<open>norm.pdf\<close>
  returns for the parent's gene under \<open>mean[j]\<close> and \<open>std[j]\<close> otherwise. No division by a
  zero standard deviation occurs: the coefficients do not depend on what \<open>norm.pdf\<close> does
  for a scale of zero.
\<close>

theorem likelihood_beta:
  assumes "\<not> normal_beta L"
    and "\<forall>i<no_p. sf (parents ! i) < length (lc_subpops L)
           \<and> np_mean C (map gene (lc_subpops L ! sf (parents ! i))) = Inr (mean i)
           \<and> np_std C (map gene (lc_subpops L ! sf (parents ! i))) = Inr (std i)
           \<and> lc_D L \<le> length (std i)"
    and "\<forall>i<no_p. \<forall>j<lc_D L. std i ! j \<noteq> 0 \<longrightarrow>
           j < length (gene (parents ! i)) \<and> j < length (mean i)
           \<and> (\<exists>d. norm_pdf C (gene (parents ! i) ! j) (mean i ! j) (std i ! j) = Inr d)"
  shows "(\<exists>bl. set_beta C L no_p parents r = Inr (bl, r) \<and> length bl = no_p
      \<and> (\<forall>i<no_p. length (bl ! i) = lc_D L
           \<and> (\<forall>j<lc_D L.
                (std i ! j = 0 \<longrightarrow> bl ! i ! j = 1)
                \<and> (std i ! j \<noteq> 0 \<longrightarrow>
                     norm_pdf C (gene (parents ! i) ! j) (mean i ! j) (std i ! j)
                       = Inr (bl ! i ! j)))))
    \<and> (\<forall>f. (\<forall>x m s. s \<noteq> 0 \<longrightarrow> f x m s = norm_pdf C x m s) \<longrightarrow>
          set_beta (C\<lparr>norm_pdf := f\<rparr>) L no_p parents r = set_beta C L no_p parents r)"
proof
  define density where "density i j =
      (case norm_pdf C (gene (parents ! i) ! j) (mean i ! j) (std i ! j) of
         Inr d \<Rightarrow> d | Inl e \<Rightarrow> 0)" for i j
  define cell where "cell i j = (if std i ! j = 0 then 1 else density i j)" for i j
  have pdf: "norm_pdf C (gene (parents ! i) ! j) (mean i ! j) (std i ! j) = Inr (density i j)
      \<and> j < length (gene (parents ! i)) \<and> j < length (mean i)"
    if "i < no_p" "j < lc_D L" "std i ! j \<noteq> 0" for i j
  proof -
    from assms(3) that obtain d where "j < length (gene (parents ! i))" "j < length (mean i)"
      "norm_pdf C (gene (parents ! i) ! j) (mean i ! j) (std i ! j) = Inr d"
      by blast
    then show ?thesis by (simp add: density_def)
  qed
  have cells: "beta_cell C (gene (parents ! i)) (mean i) (std i) j = Inr (cell i j)"
    if "i < no_p" "j < lc_D L" for i j
    unfolding cell_def
  proof (rule beta_cell_returns)
    from assms(2) that show "j < length (std i)" by fastforce
    assume "std i ! j \<noteq> 0"
    with pdf [of i j] that show "j < length (gene (parents ! i)) \<and> j < length (mean i)
        \<and> norm_pdf C (gene (parents ! i) ! j) (mean i ! j) (std i ! j) = Inr (density i j)"
      by simp
  qed
  have row: "beta_row C (lc_subpops L) (lc_D L) (parents ! i) = Inr (map (cell i) [0..<lc_D L])"
    if "i < no_p" for i
  proof -
    from assms(2) that have lib: "sf (parents ! i) < length (lc_subpops L)"
      "np_mean C (map gene (lc_subpops L ! sf (parents ! i))) = Inr (mean i)"
      "np_std C (map gene (lc_subpops L ! sf (parents ! i))) = Inr (std i)"
      by simp_all
    have "collect (beta_cell C (gene (parents ! i)) (mean i) (std i)) [0..<lc_D L]
            = Inr (map (cell i) [0..<lc_D L])"
      by (rule collect_map) (simp add: cells that)
    with lib show ?thesis
      by (simp add: beta_row_def py_get_def)
  qed
  have "collect (\<lambda>i. beta_row C (lc_subpops L) (lc_D L) (parents ! i)) [0..<no_p]
          = Inr (map (\<lambda>i. map (cell i) [0..<lc_D L]) [0..<no_p])"
    by (rule collect_map) (simp add: row)
  with assms(1)
  have sb: "set_beta C L no_p parents r = Inr (map (\<lambda>i. map (cell i) [0..<lc_D L]) [0..<no_p], r)"
    by (simp add: set_beta_def)
  show "\<exists>bl. set_beta C L no_p parents r = Inr (bl, r) \<and> length bl = no_p
      \<and> (\<forall>i<no_p. length (bl ! i) = lc_D L
           \<and> (\<forall>j<lc_D L.
                (std i ! j = 0 \<longrightarrow> bl ! i ! j = 1)
                \<and> (std i ! j \<noteq> 0 \<longrightarrow>
                     norm_pdf C (gene (parents ! i) ! j) (mean i ! j) (std i ! j)
                       = Inr (bl ! i ! j))))"
  proof (intro exI conjI allI impI)
    show "set_beta C L no_p parents r
            = Inr (map (\<lambda>i. map (cell i) [0..<lc_D L]) [0..<no_p], r)"
      by (rule sb)
    show "length (map (\<lambda>i. map (cell i) [0..<lc_D L]) [0..<no_p]) = no_p"
      by simp
  next
    fix i assume "i < no_p"
    then show "length (map (\<lambda>i. map (cell i) [0..<lc_D L]) [0..<no_p] ! i) = lc_D L"
      by simp
  next
    fix i j assume "i < no_p" "j < lc_D L" "std i ! j = 0"
    then show "map (\<lambda>i. map (cell i) [0..<lc_D L]) [0..<no_p] ! i ! j = 1"
      by (simp add: cell_def)
  next
    fix i j assume "i < no_p" "j < lc_D L" "std i ! j \<noteq> 0"
    with pdf [of i j]
    show "norm_pdf C (gene (parents ! i) ! j) (mean i ! j) (std i ! j)
            = Inr (map (\<lambda>i. map (cell i) [0..<lc_D L]) [0..<no_p] ! i ! j)"
      by (simp add: cell_def)
  qed
  show "\<forall>f. (\<forall>x m s. s \<noteq> 0 \<longrightarrow> f x m s = norm_pdf C x m s) \<longrightarrow>
          set_beta (C\<lparr>norm_pdf := f\<rparr>) L no_p parents r = set_beta C L no_p parents r"
    by (intro allI impI) (rule set_beta_scale)
qed

theorem likelihood_beta_witness:
  "\<not> normal_beta ex_likelihood
   \<and> sf ([ex_P] ! 0) < length (lc_subpops ex_likelihood)
   \<and> np_mean (ref_ops 1) (map gene (lc_subpops ex_likelihood ! sf ([ex_P] ! 0))) = Inr [1, 1]
   \<and> np_std (ref_ops 1) (map gene (lc_subpops ex_likelihood ! sf ([ex_P] ! 0))) = Inr [0, 1]
   \<and> lc_D ex_likelihood \<le> length [0, 1 :: real]
   \<and> [0, 1 :: real] ! 1 \<noteq> 0
   \<and> norm_pdf (ref_ops 1) (gene ([ex_P] ! 0) ! 1) ([1, 1] ! 1) ([0, 1] ! 1)
        = Inr (exp (- (1 / 2)) / sqrt (2 * pi))
   \<and> (\<exists>bl. set_beta (ref_ops 1) ex_likelihood 1 [ex_P] (0::nat) = Inr (bl, 0)
          \<and> bl ! 0 ! 0 = 1
          \<and> bl ! 0 ! 1 = exp (- (1 / 2)) / sqrt (2 * pi))"
proof -
  have nb: "\<not> normal_beta ex_likelihood"
    by (simp add: ex_likelihood_def)
  have sub: "lc_subpops ex_likelihood ! sf ([ex_P] ! 0) = [ex_P, ex_Q]"
    "lc_D ex_likelihood = 2" "gene ([ex_P] ! 0) ! 1 = 0"
    by (simp_all add: ex_likelihood_def ex_P_def)
  have parts: "sf ([ex_P] ! 0) < length (lc_subpops ex_likelihood)"
    "np_mean (ref_ops 1) (map gene (lc_subpops ex_likelihood ! sf ([ex_P] ! 0))) = Inr [1, 1]"
    "np_std (ref_ops 1) (map gene (lc_subpops ex_likelihood ! sf ([ex_P] ! 0))) = Inr [0, 1]"
    "lc_D ex_likelihood \<le> length [0, 1 :: real]"
    "[0, 1 :: real] ! 1 \<noteq> 0"
    "norm_pdf (ref_ops 1) (gene ([ex_P] ! 0) ! 1) ([1, 1] ! 1) ([0, 1] ! 1)
        = Inr (exp (- (1 / 2)) / sqrt (2 * pi))"
    unfolding sub using ex_columns by (simp_all add: ex_likelihood_def ex_P_def)
  have lib: "\<forall>i<1. sf ([ex_P] ! i) < length (lc_subpops ex_likelihood)
           \<and> np_mean (ref_ops 1) (map gene (lc_subpops ex_likelihood ! sf ([ex_P] ! i)))
               = Inr ((\<lambda>i. [1, 1]) i)
           \<and> np_std (ref_ops 1) (map gene (lc_subpops ex_likelihood ! sf ([ex_P] ! i)))
               = Inr ((\<lambda>i. [0, 1]) i)
           \<and> lc_D ex_likelihood \<le> length ((\<lambda>i. [0, 1 :: real]) i)"
    using parts by simp
  have reached: "\<forall>i<1. \<forall>j<lc_D ex_likelihood. (\<lambda>i. [0, 1 :: real]) i ! j \<noteq> 0 \<longrightarrow>
           j < length (gene ([ex_P] ! i)) \<and> j < length ((\<lambda>i. [1, 1 :: real]) i)
           \<and> (\<exists>d. norm_pdf (ref_ops 1) (gene ([ex_P] ! i) ! j) ((\<lambda>i. [1, 1]) i ! j)
                     ((\<lambda>i. [0, 1]) i ! j) = Inr d)"
  proof (intro allI impI)
    fix i j :: nat assume "i < 1" "j < lc_D ex_likelihood" "(\<lambda>i. [0, 1 :: real]) i ! j \<noteq> 0"
    then have "i = 0" "j = 1"
      by (auto simp: sub less_Suc_eq numeral_2_eq_2)
    with parts(6) show "j < length (gene ([ex_P] ! i)) \<and> j < length ((\<lambda>i. [1, 1 :: real]) i)
           \<and> (\<exists>d. norm_pdf (ref_ops 1) (gene ([ex_P] ! i) ! j) ((\<lambda>i. [1, 1]) i ! j)
                     ((\<lambda>i. [0, 1]) i ! j) = Inr d)"
      by (simp add: ex_P_def)
  qed
  from likelihood_beta [OF nb lib reached, of 0]
  obtain bl where sb: "set_beta (ref_ops 1) ex_likelihood 1 [ex_P] (0::nat) = Inr (bl, 0)"
    and cells: "\<forall>i<1. length (bl ! i) = lc_D ex_likelihood
           \<and> (\<forall>j<lc_D ex_likelihood.
                ((\<lambda>i. [0, 1 :: real]) i ! j = 0 \<longrightarrow> bl ! i ! j = 1)
                \<and> ((\<lambda>i. [0, 1 :: real]) i ! j \<noteq> 0 \<longrightarrow>
                     norm_pdf (ref_ops 1) (gene ([ex_P] ! i) ! j) ((\<lambda>i. [1, 1]) i ! j)
                       ((\<lambda>i. [0, 1]) i ! j) = Inr (bl ! i ! j)))"
    by blast
  from cells have cell: "([0, 1 :: real] ! j = 0 \<longrightarrow> bl ! 0 ! j = 1)
      \<and> ([0, 1 :: real] ! j \<noteq> 0 \<longrightarrow>
           norm_pdf (ref_ops 1) (gene ([ex_P] ! 0) ! j) ([1, 1] ! j) ([0, 1] ! j)
             = Inr (bl ! 0 ! j))"
    if "j < 2" for j
    using that by (simp add: sub)
  from cell [of 0] have c0: "bl ! 0 ! 0 = 1"
    by simp
  from cell [of 1] parts(6) have c1: "bl ! 0 ! 1 = exp (- (1 / 2)) / sqrt (2 * pi)"
    by simp
  from nb parts sb c0 c1 show ?thesis by blast
qed

subsection \<open>The slots that the pairing loop assigns\<close>

text \<open>
  Claim C8. A parent group that starts at \<open>k\<close> leaves every slot outside
  \<open>[N + k, N + k + no_p)\<close> as it was, and this slice lies inside \<open>[N, 2N)\<close>; the whole
  pairing loop leaves every slot outside \<open>[N, 2N)\<close> as it was. The length of the
  population list does not change.
\<close>

theorem offspring_slots_only:
  "(pair_group C L k (pop, r) = Inr (pop', r') \<and> k < lc_N L \<longrightarrow>
      length pop' = length pop
      \<and> (\<forall>j. pop' ! j \<noteq> pop ! j \<longrightarrow>
            lc_N L + k \<le> j \<and> j < lc_N L + k + min (lc_N L - k) (lc_no_par L))
      \<and> lc_N L \<le> lc_N L + k
      \<and> lc_N L + k + min (lc_N L - k) (lc_no_par L) \<le> 2 * lc_N L)
   \<and> (pairing_from C L 0 (pop, r) = Inr (pop2, r2) \<longrightarrow>
      length pop2 = length pop
      \<and> (\<forall>j. pop2 ! j \<noteq> pop ! j \<longrightarrow> lc_N L \<le> j \<and> j < 2 * lc_N L))"
proof (intro conjI impI)
  assume a: "pair_group C L k (pop, r) = Inr (pop', r') \<and> k < lc_N L"
  then have g: "pair_group C L k (pop, r) = Inr (pop', r')" and k: "k < lc_N L"
    by simp_all
  from pair_group_frame(1) [OF g] show "length pop' = length pop" .
  from pair_group_frame(2) [OF g]
  show "\<forall>j. pop' ! j \<noteq> pop ! j \<longrightarrow>
            lc_N L + k \<le> j \<and> j < lc_N L + k + min (lc_N L - k) (lc_no_par L)"
    by blast
  show "lc_N L \<le> lc_N L + k" by simp
  from k show "lc_N L + k + min (lc_N L - k) (lc_no_par L) \<le> 2 * lc_N L"
    by arith
next
  assume "pairing_from C L 0 (pop, r) = Inr (pop2, r2)"
  from pairing_from_frame [OF this]
  show "length pop2 = length pop"
    and "\<forall>j. pop2 ! j \<noteq> pop ! j \<longrightarrow> lc_N L \<le> j \<and> j < 2 * lc_N L"
    by simp_all
qed

theorem offspring_slots_only_witness:
  "pair_group (ref_ops 2) (ex_locals 2 2) 0 ([ex_A, ex_C, ex_B, ex_B], 0)
     = Inr ([ex_A, ex_C, \<lparr>gene = [2, 3], sf = 1, chrom_D = 2\<rparr>,
              \<lparr>gene = [3 / 2, 5 / 2], sf = 0, chrom_D = 2\<rparr>], 3)
   \<and> 0 < lc_N (ex_locals 2 2)
   \<and> pairing_from (ref_ops 2) (ex_locals 2 2) 0 ([ex_A, ex_C, ex_B, ex_B], 0)
     = Inr ([ex_A, ex_C, \<lparr>gene = [2, 3], sf = 1, chrom_D = 2\<rparr>,
              \<lparr>gene = [3 / 2, 5 / 2], sf = 0, chrom_D = 2\<rparr>], 3)
   \<and> [ex_A, ex_C, \<lparr>gene = [2, 3], sf = 1, chrom_D = 2\<rparr>,
        \<lparr>gene = [3 / 2, 5 / 2], sf = 0, chrom_D = 2\<rparr>] ! 2 \<noteq> [ex_A, ex_C, ex_B, ex_B] ! 2
   \<and> lc_N (ex_locals 2 2) + 0 \<le> 2
   \<and> 2 < lc_N (ex_locals 2 2) + 0 + min (lc_N (ex_locals 2 2) - 0) (lc_no_par (ex_locals 2 2))
   \<and> lc_N (ex_locals 2 2) + 0 + min (lc_N (ex_locals 2 2) - 0) (lc_no_par (ex_locals 2 2))
        \<le> 2 * lc_N (ex_locals 2 2)"
proof -
  have changed: "[ex_A, ex_C, \<lparr>gene = [2, 3], sf = 1, chrom_D = 2\<rparr>,
        \<lparr>gene = [3 / 2, 5 / 2], sf = 0, chrom_D = 2\<rparr>] ! 2 \<noteq> [ex_A, ex_C, ex_B, ex_B] ! 2"
    by (simp add: ex_B_def)
  have pos: "0 < lc_N (ex_locals 2 2)"
    by (simp add: ex_locals_def)
  from offspring_slots_only [of "ref_ops 2" "ex_locals 2 2" 0 "[ex_A, ex_C, ex_B, ex_B]" 0
      "[ex_A, ex_C, \<lparr>gene = [2, 3], sf = 1, chrom_D = 2\<rparr>,
        \<lparr>gene = [3 / 2, 5 / 2], sf = 0, chrom_D = 2\<rparr>]" 3
      "[ex_A, ex_C, \<lparr>gene = [2, 3], sf = 1, chrom_D = 2\<rparr>,
        \<lparr>gene = [3 / 2, 5 / 2], sf = 0, chrom_D = 2\<rparr>]" 3]
    ex_cross ex_cross_loop pos changed
  show ?thesis by blast
qed

subsection \<open>Setup\<close>

lemma lookup_ref_config:
  "lookup ref_config ''pop_size'' = Inr (PInt 2)"
  "lookup ref_config ''num_iter'' = Inr (PInt 1)"
  "lookup ref_config ''num_par'' = Inr (PInt 2)"
  "lookup ref_config ''mutation_rate'' = Inr (PFloat (1 / 10))"
  "lookup ref_config ''sbxdi'' = Inr (PInt 2)"
  "lookup ref_config ''pmdi'' = Inr (PInt 5)"
  "lookup ref_config ''pswap'' = Inr (PFloat (1 / 2))"
  "lookup ref_config ''max_arity'' = Inr (PInt 2)"
  "lookup ref_config ''h_main'' = Inr (PInt 4)"
  "lookup ref_config ''h_adf'' = Inr (PInt 3)"
  by (simp_all add: lookup_def ref_config_def)

lemma ex_unpack:
  "unpack [ex_env 4, ex_env 6] ref_config =
     Inr \<lparr>hp_K = 2, hp_N = PInt 4, hp_T = PInt 1, hp_no_par = PInt 2, hp_mr = PFloat (1 / 10),
          hp_sbxdi = PInt 2, hp_pmdi = PInt 5, hp_pswap = PFloat (1 / 2), hp_max_arity = PInt 2,
          hp_h_main = PInt 4, hp_h_adf = PInt 3, hp_no_main = 2, hp_no_adf = 4,
          hp_no_terminal = 6\<rparr>"
  by (simp add: unpack_def lookup_ref_config py_get_def ex_env_def)

lemmas run_eval = mfeaii_mgp_def evolve_def generation_def pairing_loop_def trange_def initial_pop_def
  py_get_def np_index2_def ref_ops_simps

lemma ex_unpack_single:
  "unpack [ex_env 4] ref_config =
     Inr \<lparr>hp_K = 1, hp_N = PInt 2, hp_T = PInt 1, hp_no_par = PInt 2, hp_mr = PFloat (1 / 10),
          hp_sbxdi = PInt 2, hp_pmdi = PInt 5, hp_pswap = PFloat (1 / 2), hp_max_arity = PInt 2,
          hp_h_main = PInt 4, hp_h_adf = PInt 3, hp_no_main = 2, hp_no_adf = 4,
          hp_no_terminal = 4\<rparr>"
  by (simp add: unpack_def lookup_ref_config py_get_def ex_env_def)

lemma ex_run_single:
  "mfeaii_mgp (ref_ops 1) [ex_env 4] ref_config True True 0 = ([], Inl IndexError)"
  by (simp add: run_eval ex_unpack_single group_eval halve_def bump_def)

lemma np_max_Max: "xs \<noteq> [] \<Longrightarrow> np_max xs = Inr (Max (set xs))"
proof (cases xs)
  case Nil
  assume "xs \<noteq> []"
  with Nil show ?thesis by simp
next
  case (Cons a list)
  then show ?thesis
    using Max.set_eq_fold [of a list] by simp
qed

lemma unpack_succeeds:
  assumes "envs \<noteq> []" and "\<forall>key \<in> set config_keys. cfg key \<noteq> None"
  shows "\<exists>H. unpack envs cfg = Inr H \<and> hp_K H = length envs
           \<and> hp_no_terminal H = Max (set (map reset_shape0 envs))"
proof -
  from assms(2) have k: "cfg ''pop_size'' \<noteq> None" "cfg ''num_iter'' \<noteq> None"
    "cfg ''num_par'' \<noteq> None" "cfg ''mutation_rate'' \<noteq> None" "cfg ''sbxdi'' \<noteq> None"
    "cfg ''pmdi'' \<noteq> None" "cfg ''pswap'' \<noteq> None" "cfg ''max_arity'' \<noteq> None"
    "cfg ''h_main'' \<noteq> None" "cfg ''h_adf'' \<noteq> None"
    by (simp_all add: config_keys_def)
  have l: "\<exists>v. lookup cfg key = Inr v" if "cfg key \<noteq> None" for key
    using that by (auto simp: lookup_def)
  from l [OF k(1)] l [OF k(2)] l [OF k(3)] l [OF k(4)] l [OF k(5)] l [OF k(6)] l [OF k(7)]
    l [OF k(8)] l [OF k(9)] l [OF k(10)]
  obtain v1 v2 v3 v4 v5 v6 v7 v8 v9 v10 where
    "lookup cfg ''pop_size'' = Inr v1" "lookup cfg ''num_iter'' = Inr v2"
    "lookup cfg ''num_par'' = Inr v3" "lookup cfg ''mutation_rate'' = Inr v4"
    "lookup cfg ''sbxdi'' = Inr v5" "lookup cfg ''pmdi'' = Inr v6"
    "lookup cfg ''pswap'' = Inr v7" "lookup cfg ''max_arity'' = Inr v8"
    "lookup cfg ''h_main'' = Inr v9" "lookup cfg ''h_adf'' = Inr v10"
    by blast
  moreover have "py_get envs 0 = Inr (envs ! 0)"
    using assms(1) by (simp add: py_get_def)
  moreover have "np_max (map reset_shape0 envs) = Inr (Max (set (map reset_shape0 envs)))"
    using assms(1) by (intro np_max_Max) simp
  ultimately show ?thesis
    by (simp add: unpack_def Let_def)
qed

lemma unpack_same_maximum:
  assumes "envs \<noteq> []" "length envs' = length envs"
    and "action_space_n (envs' ! 0) = action_space_n (envs ! 0)"
    and "Max (set (map reset_shape0 envs')) = Max (set (map reset_shape0 envs))"
  shows "unpack envs' cfg = unpack envs cfg"
proof -
  from assms(1,2) have ne: "envs' \<noteq> []" by auto
  have "py_get envs 0 = Inr (envs ! 0)" "py_get envs' 0 = Inr (envs' ! 0)"
    using assms(1) ne by (simp_all add: py_get_def)
  moreover have "np_max (map reset_shape0 envs) = Inr (Max (set (map reset_shape0 envs)))"
    "np_max (map reset_shape0 envs') = Inr (Max (set (map reset_shape0 envs')))"
    using assms(1) ne by (simp_all add: np_max_Max)
  ultimately show ?thesis
    using assms(2,3,4) by (simp add: unpack_def)
qed

lemma ex_unpack_matched:
  "unpack [ex_env 6, ex_env 6] ref_config = unpack [ex_env 4, ex_env 6] ref_config"
  by (simp add: unpack_def lookup_ref_config py_get_def ex_env_def)

text \<open>
  Claim C3 says that environments with different observation lengths make setup fail.
  The driver has no such check. For observation lengths 4 and 6 the hyper-parameters are
  unpacked with \<open>no_terminal = 6\<close>, they are the hyper-parameters of two environments of
  length 6, and with any collaborators the driver calls the population constructor with
  these values and goes on from the population that it returns.
\<close>

theorem mismatched_observations_start:
  "reset_shape0 (ex_env 4) \<noteq> reset_shape0 (ex_env 6)
   \<and> unpack [ex_env 4, ex_env 6] ref_config =
     Inr \<lparr>hp_K = 2, hp_N = PInt 4, hp_T = PInt 1, hp_no_par = PInt 2, hp_mr = PFloat (1 / 10),
          hp_sbxdi = PInt 2, hp_pmdi = PInt 5, hp_pswap = PFloat (1 / 2), hp_max_arity = PInt 2,
          hp_h_main = PInt 4, hp_h_adf = PInt 3, hp_no_main = 2, hp_no_adf = 4,
          hp_no_terminal = 6\<rparr>
   \<and> unpack [ex_env 6, ex_env 6] ref_config = unpack [ex_env 4, ex_env 6] ref_config
   \<and> (\<forall>C callback nb r0.
        mfeaii_mgp C [ex_env 4, ex_env 6] ref_config callback nb r0 =
          evolve C [ex_env 4, ex_env 6] callback nb
            \<lparr>hp_K = 2, hp_N = PInt 4, hp_T = PInt 1, hp_no_par = PInt 2,
             hp_mr = PFloat (1 / 10), hp_sbxdi = PInt 2, hp_pmdi = PInt 5,
             hp_pswap = PFloat (1 / 2), hp_max_arity = PInt 2, hp_h_main = PInt 4,
             hp_h_adf = PInt 3, hp_no_main = 2, hp_no_adf = 4, hp_no_terminal = 6\<rparr>
            (Slgep_pop C 4 6 2 (PInt 4) (PInt 2) (PInt 3) (PInt 8) 2 r0))"
  using ex_unpack ex_unpack_matched by (simp add: ex_env_def mfeaii_mgp_def)

text \<open>
  Claim C3, amended. With at least one environment and every configuration key present,
  unpacking the hyper-parameters raises nothing, whatever the observation lengths are.
  \<open>no_terminal\<close> is the largest observation length over the tasks, so no task has more
  observations than \<open>no_terminal\<close>; the hyper-parameters are those of every environment
  list of the same length, the same action count of the first environment and the same
  largest observation length; and the driver calls the population constructor with this
  one \<open>no_terminal\<close> and goes on from the population that it returns.
\<close>

theorem setup_takes_largest_observation:
  assumes "envs \<noteq> []" and "\<forall>key \<in> set config_keys. cfg key \<noteq> None"
  shows "\<exists>H. unpack envs cfg = Inr H
           \<and> hp_no_terminal H = Max (set (map reset_shape0 envs))
           \<and> (\<forall>e \<in> set envs. reset_shape0 e \<le> hp_no_terminal H)
           \<and> (\<forall>envs'. length envs' = length envs
                  \<and> action_space_n (envs' ! 0) = action_space_n (envs ! 0)
                  \<and> Max (set (map reset_shape0 envs')) = Max (set (map reset_shape0 envs))
                \<longrightarrow> unpack envs' cfg = Inr H)
           \<and> mfeaii_mgp C envs cfg callback nb r0 =
               evolve C envs callback nb H
                 (Slgep_pop C (hp_no_adf H) (Max (set (map reset_shape0 envs))) (hp_no_main H)
                    (hp_h_main H) (hp_max_arity H) (hp_h_adf H) (py_times (hp_N H) 2)
                    (hp_K H) r0)"
proof -
  from unpack_succeeds [OF assms] obtain H where
    H: "unpack envs cfg = Inr H" "hp_no_terminal H = Max (set (map reset_shape0 envs))"
    by blast
  have le: "\<forall>e \<in> set envs. reset_shape0 e \<le> hp_no_terminal H"
    using H(2) by simp
  have same: "\<forall>envs'. length envs' = length envs
                  \<and> action_space_n (envs' ! 0) = action_space_n (envs ! 0)
                  \<and> Max (set (map reset_shape0 envs')) = Max (set (map reset_shape0 envs))
                \<longrightarrow> unpack envs' cfg = Inr H"
  proof (intro allI impI)
    fix envs' :: "env list" assume a: "length envs' = length envs
                  \<and> action_space_n (envs' ! 0) = action_space_n (envs ! 0)
                  \<and> Max (set (map reset_shape0 envs')) = Max (set (map reset_shape0 envs))"
    have "unpack envs' cfg = unpack envs cfg"
      by (rule unpack_same_maximum [OF assms(1)]) (use a in simp_all)
    with H(1) show "unpack envs' cfg = Inr H" by simp
  qed
  have run: "mfeaii_mgp C envs cfg callback nb r0 =
               evolve C envs callback nb H
                 (Slgep_pop C (hp_no_adf H) (Max (set (map reset_shape0 envs))) (hp_no_main H)
                    (hp_h_main H) (hp_max_arity H) (hp_h_adf H) (py_times (hp_N H) 2)
                    (hp_K H) r0)"
    using H by (simp add: mfeaii_mgp_def)
  from H le same run show ?thesis by blast
qed

theorem setup_takes_largest_observation_witness:
  "[ex_env 4, ex_env 6] \<noteq> []
   \<and> list_all (\<lambda>key. ref_config key \<noteq> None) config_keys
   \<and> (\<exists>H. unpack [ex_env 4, ex_env 6] ref_config = Inr H \<and> hp_no_terminal H = 6
        \<and> reset_shape0 (ex_env 4) \<le> hp_no_terminal H
        \<and> unpack [ex_env 6, ex_env 6] ref_config = Inr H
        \<and> mfeaii_mgp (ref_ops 2) [ex_env 4, ex_env 6] ref_config True True 0 =
            evolve (ref_ops 2) [ex_env 4, ex_env 6] True True H
              (Slgep_pop (ref_ops 2) (hp_no_adf H) 6 (hp_no_main H) (hp_h_main H)
                 (hp_max_arity H) (hp_h_adf H) (py_times (hp_N H) 2) (hp_K H) 0))"
proof -
  have ne: "[ex_env 4, ex_env 6] \<noteq> []" by simp
  have keys: "list_all (\<lambda>key. ref_config key \<noteq> None) config_keys"
    by (simp add: config_keys_def ref_config_def)
  then have all: "\<forall>key \<in> set config_keys. ref_config key \<noteq> None"
    by (simp add: list_all_iff)
  have mx: "Max (set (map reset_shape0 [ex_env 4, ex_env 6])) = 6"
    "Max (set (map reset_shape0 [ex_env 6, ex_env 6])) = 6"
    "action_space_n ([ex_env 6, ex_env 6] ! 0) = action_space_n ([ex_env 4, ex_env 6] ! 0)"
    by (simp_all add: ex_env_def)
  from setup_takes_largest_observation [OF ne all, where C = "ref_ops 2" and callback = True
      and nb = True and ?r0.0 = 0]
  obtain H where H: "unpack [ex_env 4, ex_env 6] ref_config = Inr H"
    "hp_no_terminal H = Max (set (map reset_shape0 [ex_env 4, ex_env 6]))"
    "\<forall>e \<in> set [ex_env 4, ex_env 6]. reset_shape0 e \<le> hp_no_terminal H"
    "\<forall>envs'. length envs' = length [ex_env 4, ex_env 6]
         \<and> action_space_n (envs' ! 0) = action_space_n ([ex_env 4, ex_env 6] ! 0)
         \<and> Max (set (map reset_shape0 envs')) = Max (set (map reset_shape0 [ex_env 4, ex_env 6]))
       \<longrightarrow> unpack envs' ref_config = Inr H"
    "mfeaii_mgp (ref_ops 2) [ex_env 4, ex_env 6] ref_config True True 0 =
       evolve (ref_ops 2) [ex_env 4, ex_env 6] True True H
         (Slgep_pop (ref_ops 2) (hp_no_adf H) (Max (set (map reset_shape0 [ex_env 4, ex_env 6])))
            (hp_no_main H) (hp_h_main H) (hp_max_arity H) (hp_h_adf H) (py_times (hp_N H) 2)
            (hp_K H) 0)"
    by blast
  from H(4) [rule_format, of "[ex_env 6, ex_env 6]"] mx
  have "unpack [ex_env 6, ex_env 6] ref_config = Inr H"
    by simp
  moreover from H(3) have "reset_shape0 (ex_env 4) \<le> hp_no_terminal H"
    by simp
  ultimately show ?thesis
    using ne keys H(1,2,5) mx(1) by auto
qed

subsection \<open>Configuration options\<close>

lemma lookup_other:
  "key \<noteq> ''sbxdi'' \<Longrightarrow> key \<noteq> ''pswap'' \<Longrightarrow>
     lookup (cfg(''sbxdi'' \<mapsto> v, ''pswap'' \<mapsto> w)) key = lookup cfg key"
  by (simp add: lookup_def)

lemma lookup_changed:
  "lookup (cfg(''sbxdi'' \<mapsto> v, ''pswap'' \<mapsto> w)) ''sbxdi'' = Inr v"
  "lookup (cfg(''sbxdi'' \<mapsto> v, ''pswap'' \<mapsto> w)) ''pswap'' = Inr w"
  by (simp_all add: lookup_def)

lemma unpack_sbxdi_pswap:
  assumes "cfg ''sbxdi'' \<noteq> None" "cfg ''pswap'' \<noteq> None"
  shows "unpack envs (cfg(''sbxdi'' \<mapsto> v, ''pswap'' \<mapsto> w)) =
           and_then (unpack envs cfg) (\<lambda>H. Inr (H\<lparr>hp_sbxdi := v, hp_pswap := w\<rparr>))"
proof -
  from assms obtain v0 w0 where old: "lookup cfg ''sbxdi'' = Inr v0" "lookup cfg ''pswap'' = Inr w0"
    by (auto simp: lookup_def)
  show ?thesis
    unfolding unpack_def Let_def
    by (simp add: lookup_other lookup_changed old and_then_def split: sum.splits)
qed

lemma pairing_loop_reads:
  "pairing_loop C nb (H\<lparr>hp_sbxdi := v, hp_pswap := w\<rparr>) D subpops m s
     = pairing_loop C nb H D subpops m s"
  by (simp add: pairing_loop_def split: pyval.splits)

lemma generation_reads:
  "generation C envs nb (H\<lparr>hp_sbxdi := v, hp_pswap := w\<rparr>) D = generation C envs nb H D"
  by (intro ext) (simp add: generation_def pairing_loop_reads)

lemma evolve_reads:
  "evolve C envs callback nb (H\<lparr>hp_sbxdi := v, hp_pswap := w\<rparr>) s0
     = evolve C envs callback nb H s0"
  by (simp add: evolve_def generation_reads Let_def split: prod.splits sum.splits)

lemma sbxdi_pswap_unused:
  assumes "cfg ''sbxdi'' \<noteq> None" "cfg ''pswap'' \<noteq> None"
  shows "mfeaii_mgp C envs (cfg(''sbxdi'' \<mapsto> v, ''pswap'' \<mapsto> w)) callback nb r0
           = mfeaii_mgp C envs cfg callback nb r0"
proof (cases "unpack envs cfg")
  case (Inl e)
  then show ?thesis
    by (simp add: mfeaii_mgp_def unpack_sbxdi_pswap [OF assms])
next
  case (Inr H)
  then show ?thesis
    by (simp add: mfeaii_mgp_def unpack_sbxdi_pswap [OF assms] evolve_reads)
qed

lemma probe_ops_simps:
  "Slgep_pop probe_ops a1 a2 a3 h_main max_arity h_adf no_pop no_task r
     = (probe_pop h_main max_arity h_adf no_pop, r)"
  "evaluate probe_ops envs pop r = (pop, r)"
  "sort_pop probe_ops pop = pop"
  "permute probe_ops pop r = (pop, r)"
  "get_subpops probe_ops pop = map (\<lambda>t. filter (\<lambda>c. sf c = t) pop) [0..<2]"
  "learn_rmp probe_ops pop subpops r = (replicate 2 (replicate 2 1), r)"
  "crossover_mul probe_ops pop parents bl r = (map halve parents, r)"
  "crossover_mul_second probe_ops pop parents bl m r = (map halve parents, r)"
  "mutate probe_ops pop ch mr pmdi r
     = (ch\<lparr>gene := map (\<lambda>x. x + as_real mr) (gene ch)\<rparr>, r + as_nat pmdi)"
  "find_relative probe_ops pop s r = (first_of_task pop s, r)"
  "get_optimization_results probe_ops pop t msg = (t, msg)"
  "random_normal probe_ops loc scale n d r = (replicate n (replicate d loc), r)"
  "random_rand probe_ops r = (1 / 2, Suc r)"
  "randint probe_ops n r = (r, Suc r)"
  "round1 probe_ops x = x"
  by (simp_all add: probe_ops_def ref_ops_simps)

lemmas probe_eval = evolve_def generation_def pairing_loop_def trange_def probe_pop_def
  pair_group_def set_beta_def max_rmp_of_def same_sf_def np_index2_def
  py_get_def same_task_child_def cross_task_child_def random_choice_def probe_ops_simps
  upt_rec [of _ "numeral _"] upt_rec [of _ "Suc _"] upt_rec [of _ "1"] halve_def

lemma probe_run:
  "evolve probe_ops envs True True
     \<lparr>hp_K = 2, hp_N = PInt 4, hp_T = PInt 1, hp_no_par = PInt 2, hp_mr = mr, hp_sbxdi = sx,
      hp_pmdi = pmdi, hp_pswap = ps, hp_max_arity = ma, hp_h_main = hm, hp_h_adf = ha,
      hp_no_main = 2, hp_no_adf = 4, hp_no_terminal = 4\<rparr>
     (probe_pop hm ma ha (PInt 8), 0) =
    ([(0, \<lparr>algorithm = ''mfeaii_mp'', rmp = 1\<rparr>)],
     Inr ([\<lparr>gene = [as_real hm, as_real ma, as_real ha], sf = 0, chrom_D = 3\<rparr>,
           \<lparr>gene = [as_real hm, as_real ma, as_real ha], sf = 1, chrom_D = 3\<rparr>,
           \<lparr>gene = [as_real hm, as_real ma, as_real ha], sf = 0, chrom_D = 3\<rparr>,
           \<lparr>gene = [as_real hm, as_real ma, as_real ha], sf = 0, chrom_D = 3\<rparr>,
           \<lparr>gene = [as_real hm / 2 + as_real mr, as_real ma / 2 + as_real mr,
                    as_real ha / 2 + as_real mr], sf = 1, chrom_D = 3\<rparr>,
           \<lparr>gene = [as_real hm / 2 + as_real mr, as_real ma / 2 + as_real mr,
                    as_real ha / 2 + as_real mr], sf = 0, chrom_D = 3\<rparr>,
           \<lparr>gene = [as_real hm, as_real ma, as_real ha], sf = 0, chrom_D = 3\<rparr>,
           \<lparr>gene = [as_real hm, as_real ma, as_real ha], sf = 0, chrom_D = 3\<rparr>],
          3 + as_nat (Some pmdi) + as_nat (Some pmdi)))"
  by (simp add: probe_eval)

lemmas probe_setup = mfeaii_mgp_def unpack_def lookup_def ref_config_def py_get_def ex_env_def
  probe_ops_simps

lemma option_changes_run:
  "mfeaii_mgp probe_ops [ex_env 4, ex_env 4] (ref_config(''pop_size'' \<mapsto> PInt 0)) True True 0
     \<noteq> mfeaii_mgp probe_ops [ex_env 4, ex_env 4] ref_config True True 0"
  "mfeaii_mgp probe_ops [ex_env 4, ex_env 4] (ref_config(''num_iter'' \<mapsto> PInt 0)) True True 0
     \<noteq> mfeaii_mgp probe_ops [ex_env 4, ex_env 4] ref_config True True 0"
  "mfeaii_mgp probe_ops [ex_env 4, ex_env 4] (ref_config(''num_par'' \<mapsto> PInt 0)) True True 0
     \<noteq> mfeaii_mgp probe_ops [ex_env 4, ex_env 4] ref_config True True 0"
  "mfeaii_mgp probe_ops [ex_env 4, ex_env 4] (ref_config(''mutation_rate'' \<mapsto> PFloat 1)) True True 0
     \<noteq> mfeaii_mgp probe_ops [ex_env 4, ex_env 4] ref_config True True 0"
  "mfeaii_mgp probe_ops [ex_env 4, ex_env 4] (ref_config(''pmdi'' \<mapsto> PInt 6)) True True 0
     \<noteq> mfeaii_mgp probe_ops [ex_env 4, ex_env 4] ref_config True True 0"
  "mfeaii_mgp probe_ops [ex_env 4, ex_env 4] (ref_config(''max_arity'' \<mapsto> PInt 3)) True True 0
     \<noteq> mfeaii_mgp probe_ops [ex_env 4, ex_env 4] ref_config True True 0"
  "mfeaii_mgp probe_ops [ex_env 4, ex_env 4] (ref_config(''h_main'' \<mapsto> PInt 5)) True True 0
     \<noteq> mfeaii_mgp probe_ops [ex_env 4, ex_env 4] ref_config True True 0"
  "mfeaii_mgp probe_ops [ex_env 4, ex_env 4] (ref_config(''h_adf'' \<mapsto> PInt 4)) True True 0
     \<noteq> mfeaii_mgp probe_ops [ex_env 4, ex_env 4] ref_config True True 0"
  by (simp_all add: probe_setup probe_run) (simp_all add: probe_eval)

lemma missing_key:
  assumes "key \<in> set config_keys" "cfg key = None"
  shows "unpack envs cfg = Inl KeyError"
  using assms
  by (auto simp: unpack_def lookup_def config_keys_def and_then_def Let_def
      split: option.splits)

lemma ref_config_present:
  "ref_config ''pop_size'' \<noteq> None"
  "ref_config ''num_iter'' \<noteq> None"
  "ref_config ''num_par'' \<noteq> None"
  "ref_config ''mutation_rate'' \<noteq> None"
  "ref_config ''pmdi'' \<noteq> None"
  "ref_config ''max_arity'' \<noteq> None"
  "ref_config ''h_main'' \<noteq> None"
  "ref_config ''h_adf'' \<noteq> None"
  by (simp_all add: ref_config_def)

lemma option_matters:
  assumes "key \<in> set effective_keys"
  shows "\<exists>u. ref_config key \<noteq> None
    \<and> mfeaii_mgp probe_ops [ex_env 4, ex_env 4] (ref_config(key \<mapsto> u)) True True 0
         \<noteq> mfeaii_mgp probe_ops [ex_env 4, ex_env 4] ref_config True True 0"
proof -
  from assms have "key = ''pop_size'' \<or> key = ''num_iter'' \<or> key = ''num_par'' \<or> key = ''mutation_rate'' \<or> key = ''pmdi'' \<or> key = ''max_arity'' \<or> key = ''h_main'' \<or> key = ''h_adf''"
    by (simp add: effective_keys_def)
  then show ?thesis
  proof (elim disjE)
    assume k: "key = ''pop_size''"
    show ?thesis
      unfolding k
      by (rule exI [of _ "PInt 0"], rule conjI, rule ref_config_present(1),
          rule option_changes_run(1))
  next
    assume k: "key = ''num_iter''"
    show ?thesis
      unfolding k
      by (rule exI [of _ "PInt 0"], rule conjI, rule ref_config_present(2),
          rule option_changes_run(2))
  next
    assume k: "key = ''num_par''"
    show ?thesis
      unfolding k
      by (rule exI [of _ "PInt 0"], rule conjI, rule ref_config_present(3),
          rule option_changes_run(3))
  next
    assume k: "key = ''mutation_rate''"
    show ?thesis
      unfolding k
      by (rule exI [of _ "PFloat 1"], rule conjI, rule ref_config_present(4),
          rule option_changes_run(4))
  next
    assume k: "key = ''pmdi''"
    show ?thesis
      unfolding k
      by (rule exI [of _ "PInt 6"], rule conjI, rule ref_config_present(5),
          rule option_changes_run(5))
  next
    assume k: "key = ''max_arity''"
    show ?thesis
      unfolding k
      by (rule exI [of _ "PInt 3"], rule conjI, rule ref_config_present(6),
          rule option_changes_run(6))
  next
    assume k: "key = ''h_main''"
    show ?thesis
      unfolding k
      by (rule exI [of _ "PInt 5"], rule conjI, rule ref_config_present(7),
          rule option_changes_run(7))
  next
    assume k: "key = ''h_adf''"
    show ?thesis
      unfolding k
      by (rule exI [of _ "PInt 4"], rule conjI, rule ref_config_present(8),
          rule option_changes_run(8))
  qed
qed

text \<open>
  Claim C9 says that every recognized option, \<open>sbxdi\<close> and \<open>pswap\<close> included, has an
  effect on the run. Two configurations that differ in the values of \<open>sbxdi\<close> and
  \<open>pswap\<close> give the same run.
\<close>

theorem sbxdi_pswap_same_run:
  "(ref_config(''sbxdi'' \<mapsto> PInt 20, ''pswap'' \<mapsto> PFloat 1)) ''sbxdi'' \<noteq> ref_config ''sbxdi''
   \<and> (ref_config(''sbxdi'' \<mapsto> PInt 20, ''pswap'' \<mapsto> PFloat 1)) ''pswap'' \<noteq> ref_config ''pswap''
   \<and> mfeaii_mgp (ref_ops 2) [ex_env 4, ex_env 4]
        (ref_config(''sbxdi'' \<mapsto> PInt 20, ''pswap'' \<mapsto> PFloat 1)) True True 0
     = mfeaii_mgp (ref_ops 2) [ex_env 4, ex_env 4] ref_config True True 0"
proof -
  have k: "ref_config ''sbxdi'' \<noteq> None" "ref_config ''pswap'' \<noteq> None"
    by (simp_all add: ref_config_def)
  have d: "(ref_config(''sbxdi'' \<mapsto> PInt 20, ''pswap'' \<mapsto> PFloat 1)) ''sbxdi'' \<noteq> ref_config ''sbxdi''"
    "(ref_config(''sbxdi'' \<mapsto> PInt 20, ''pswap'' \<mapsto> PFloat 1)) ''pswap'' \<noteq> ref_config ''pswap''"
    by (simp_all add: ref_config_def)
  from d sbxdi_pswap_unused [OF k, where C = "ref_ops 2" and envs = "[ex_env 4, ex_env 4]"
      and v = "PInt 20" and w = "PFloat 1" and callback = True and nb = True and ?r0.0 = 0]
  show ?thesis by (intro conjI)
qed

text \<open>
  Claim C9, amended. The driver reads the ten recognized options, and a run with any of
  them missing ends with \<open>KeyError\<close>. The values of \<open>sbxdi\<close> and \<open>pswap\<close> are never
  used: with both keys present, replacing their values by any others leaves the whole run
  as it is, for every collaborator, environment list, callback flag, beta mode and
  generator state. For each of the other eight options there are collaborators,
  environments and a configuration for which changing the value of that option alone
  changes the run.
\<close>

theorem sbxdi_pswap_without_effect:
  "(cfg ''sbxdi'' \<noteq> None \<and> cfg ''pswap'' \<noteq> None \<longrightarrow>
      mfeaii_mgp C envs (cfg(''sbxdi'' \<mapsto> v, ''pswap'' \<mapsto> w)) callback nb r0
        = mfeaii_mgp C envs cfg callback nb r0)
   \<and> (key \<in> set config_keys \<and> cfg' key = None \<longrightarrow>
        mfeaii_mgp C envs cfg' callback nb r0 = ([], Inl KeyError))
   \<and> (\<forall>k \<in> set effective_keys.
        \<exists>(P :: (nat, nat \<times> message) collaborators) envs' cfg'' u callback' nb' r0'.
          cfg'' k \<noteq> None
          \<and> mfeaii_mgp P envs' (cfg''(k \<mapsto> u)) callback' nb' r0'
               \<noteq> mfeaii_mgp P envs' cfg'' callback' nb' r0')"
proof (intro conjI impI ballI)
  assume "cfg ''sbxdi'' \<noteq> None \<and> cfg ''pswap'' \<noteq> None"
  then show "mfeaii_mgp C envs (cfg(''sbxdi'' \<mapsto> v, ''pswap'' \<mapsto> w)) callback nb r0
        = mfeaii_mgp C envs cfg callback nb r0"
    by (intro sbxdi_pswap_unused) simp_all
next
  assume "key \<in> set config_keys \<and> cfg' key = None"
  then have "unpack envs cfg' = Inl KeyError"
    by (intro missing_key [of key]) simp_all
  then show "mfeaii_mgp C envs cfg' callback nb r0 = ([], Inl KeyError)"
    by (simp add: mfeaii_mgp_def)
next
  fix k assume "k \<in> set effective_keys"
  from option_matters [OF this]
  show "\<exists>(P :: (nat, nat \<times> message) collaborators) envs' cfg'' u callback' nb' r0'.
          cfg'' k \<noteq> None
          \<and> mfeaii_mgp P envs' (cfg''(k \<mapsto> u)) callback' nb' r0'
               \<noteq> mfeaii_mgp P envs' cfg'' callback' nb' r0'"
    by blast
qed

theorem sbxdi_pswap_without_effect_witness:
  "ref_config ''sbxdi'' \<noteq> None \<and> ref_config ''pswap'' \<noteq> None
   \<and> mfeaii_mgp (ref_ops 2) [ex_env 4, ex_env 6]
        (ref_config(''sbxdi'' \<mapsto> PInt 20, ''pswap'' \<mapsto> PFloat 1)) True False 0
     = mfeaii_mgp (ref_ops 2) [ex_env 4, ex_env 6] ref_config True False 0
   \<and> ''pswap'' \<in> set config_keys \<and> (ref_config(''pswap'' := None)) ''pswap'' = None
   \<and> mfeaii_mgp (ref_ops 2) [ex_env 4, ex_env 6] (ref_config(''pswap'' := None)) True False 0
     = ([], Inl KeyError)
   \<and> ''pmdi'' \<in> set effective_keys
   \<and> (\<exists>(P :: (nat, nat \<times> message) collaborators) envs' cfg'' u callback' nb' r0'.
          cfg'' ''pmdi'' \<noteq> None
          \<and> mfeaii_mgp P envs' (cfg''(''pmdi'' \<mapsto> u)) callback' nb' r0'
               \<noteq> mfeaii_mgp P envs' cfg'' callback' nb' r0')"
proof -
  have k: "ref_config ''sbxdi'' \<noteq> None \<and> ref_config ''pswap'' \<noteq> None"
    by (simp add: ref_config_def)
  have m: "''pswap'' \<in> set config_keys \<and> (ref_config(''pswap'' := None)) ''pswap'' = None"
    by (simp add: config_keys_def)
  have e: "''pmdi'' \<in> set effective_keys"
    by (simp add: effective_keys_def)
  note inst = sbxdi_pswap_without_effect [where C = "ref_ops 2" and envs = "[ex_env 4, ex_env 6]"
      and cfg = ref_config and v = "PInt 20" and w = "PFloat 1" and callback = True
      and nb = False and ?r0.0 = 0 and key = "''pswap''"
      and cfg' = "ref_config(''pswap'' := None)"]
  from inst k have a: "mfeaii_mgp (ref_ops 2) [ex_env 4, ex_env 6]
        (ref_config(''sbxdi'' \<mapsto> PInt 20, ''pswap'' \<mapsto> PFloat 1)) True False 0
     = mfeaii_mgp (ref_ops 2) [ex_env 4, ex_env 6] ref_config True False 0"
    by blast
  from inst m have b: "mfeaii_mgp (ref_ops 2) [ex_env 4, ex_env 6] (ref_config(''pswap'' := None))
      True False 0 = ([], Inl KeyError)"
    by blast
  from inst e have c: "\<exists>(P :: (nat, nat \<times> message) collaborators) envs' cfg'' u callback' nb' r0'.
          cfg'' ''pmdi'' \<noteq> None
          \<and> mfeaii_mgp P envs' (cfg''(''pmdi'' \<mapsto> u)) callback' nb' r0'
               \<noteq> mfeaii_mgp P envs' cfg'' callback' nb' r0'"
    by blast
  from k m e a b c show ?thesis by (intro conjI) simp_all
qed

subsection \<open>A single task\<close>

lemma generations_never:
  assumes "\<And>t s. \<exists>e. G t s = Inl e"
  shows "fst (generations G callback ts s []) = []"
    and "ts \<noteq> [] \<Longrightarrow> \<exists>e. snd (generations G callback ts s []) = Inl e"
proof -
  have "fst (generations G callback ts s []) = []
      \<and> (ts \<noteq> [] \<longrightarrow> (\<exists>e. snd (generations G callback ts s []) = Inl e))"
  proof (cases ts)
    case Nil
    then show ?thesis by simp
  next
    case (Cons t rest)
    from assms obtain e where "G t s = Inl e" by blast
    with Cons show ?thesis by simp
  qed
  then show "fst (generations G callback ts s []) = []"
    and "ts \<noteq> [] \<Longrightarrow> \<exists>e. snd (generations G callback ts s []) = Inl e"
    by simp_all
qed

lemma generation_single_task:
  assumes "\<forall>pop sp r. square 1 (fst (learn_rmp C pop sp r))"
  shows "\<exists>e. generation C envs nb H D t s = Inl e"
proof -
  obtain pop r where s: "s = (pop, r)" by (cases s)
  obtain pop1 r1 where p: "permute C pop r = (pop1, r1)" by (cases "permute C pop r")
  obtain m r2 where l: "learn_rmp C pop1 (get_subpops C pop1) r1 = (m, r2)"
    by (cases "learn_rmp C pop1 (get_subpops C pop1) r1")
  from assms have "square 1 (fst (learn_rmp C pop1 (get_subpops C pop1) r1))" by blast
  with l have "square 1 m" by simp
  then obtain x where "m = [[x]]"
    by (cases m; cases "hd m"; cases "tl m") (auto simp: square_def)
  then have idx: "np_index2 m 0 1 = Inl IndexError"
    by (simp add: np_index2_def py_get_def)
  show ?thesis
  proof (cases "pairing_loop C nb H D (get_subpops C pop1) m (pop1, r2)")
    case (Inl e)
    with s p l show ?thesis by (simp add: generation_def)
  next
    case (Inr s2)
    with s p l idx show ?thesis
      by (cases s2) (simp add: generation_def split: prod.splits)
  qed
qed

text \<open>
  Claim C10. With one task and a \<open>K\<close> by \<open>K\<close> RMP matrix from \<open>learn_rmp\<close>, every
  generation ends in an exception (at the latest \<open>rmp_matrix[0, 1]\<close> is out of range), so
  the callback never receives results, and a run of at least one generation ends in an
  exception.
\<close>

theorem single_task_never_reports:
  assumes "length envs = 1"
    and "\<forall>pop sp r. square (length envs) (fst (learn_rmp C pop sp r))"
  shows "(\<exists>e. generation C envs nb H D t s = Inl e)
    \<and> fst (mfeaii_mgp C envs cfg callback nb r0) = []
    \<and> (\<forall>n. cfg ''num_iter'' = Some (PInt n) \<and> 0 < n \<longrightarrow>
          (\<exists>e. snd (mfeaii_mgp C envs cfg callback nb r0) = Inl e))"
proof (intro conjI allI impI)
  from assms have sq: "\<forall>pop sp r. square 1 (fst (learn_rmp C pop sp r))" by simp
  have never: "\<exists>e. generation C envs nb H' D' t' s' = Inl e" for H' D' t' s'
    using generation_single_task [OF sq] .
  show "\<exists>e. generation C envs nb H D t s = Inl e"
    by (rule never)
  show "fst (mfeaii_mgp C envs cfg callback nb r0) = []"
    using generations_never(1) [of "generation C envs nb _ _", OF never]
    by (simp add: mfeaii_mgp_def evolve_def Let_def split: sum.splits prod.splits)
  fix n assume n: "cfg ''num_iter'' = Some (PInt n) \<and> 0 < n"
  show "\<exists>e. snd (mfeaii_mgp C envs cfg callback nb r0) = Inl e"
  proof (cases "unpack envs cfg")
    case (Inl e)
    then show ?thesis by (simp add: mfeaii_mgp_def)
  next
    case (Inr H')
    then have "hp_T H' = PInt n"
      using n by (auto simp: unpack_def Let_def lookup_def and_then_eq_Inr split: option.splits)
    with n have ts: "trange (hp_T H') = Inr [0..<nat n]" "[0..<nat n] \<noteq> []"
      by (simp_all add: trange_def)
    show ?thesis
      using generations_never(2) [of "generation C envs nb H' _", OF never ts(2)] Inr ts(1)
      by (simp add: mfeaii_mgp_def evolve_def Let_def split: sum.splits prod.splits)
  qed
qed

theorem single_task_never_reports_witness:
  "length [ex_env 4] = 1
   \<and> (\<forall>pop sp r. square (length [ex_env 4]) (fst (learn_rmp (ref_ops 1) pop sp (r::nat))))
   \<and> ref_config ''num_iter'' = Some (PInt 1) \<and> (0::int) < 1
   \<and> fst (mfeaii_mgp (ref_ops 1) [ex_env 4] ref_config True True 0) = []
   \<and> (\<exists>e. snd (mfeaii_mgp (ref_ops 1) [ex_env 4] ref_config True True 0) = Inl e)
   \<and> mfeaii_mgp (ref_ops 1) [ex_env 4] ref_config True True 0 = ([], Inl IndexError)"
proof -
  have len: "length [ex_env 4] = 1" by simp
  have sq: "\<forall>pop sp r. square (length [ex_env 4]) (fst (learn_rmp (ref_ops 1) pop sp (r::nat)))"
    by (simp add: square_def ref_ops_simps)
  have it: "ref_config ''num_iter'' = Some (PInt 1) \<and> (0::int) < 1"
    by (simp add: ref_config_def)
  from single_task_never_reports [OF len sq, where cfg = ref_config and callback = True
      and nb = True and ?r0.0 = 0] it
  have "fst (mfeaii_mgp (ref_ops 1) [ex_env 4] ref_config True True 0) = []"
    "\<exists>e. snd (mfeaii_mgp (ref_ops 1) [ex_env 4] ref_config True True 0) = Inl e"
    by blast+
  with len sq it ex_run_single show ?thesis by (intro conjI) simp_all
qed

end
